theory Spec2Isabelle
  imports Complex_Main
begin

section \<open>Route Provider Adapter: waypoint chunking\<close>

text \<open>
  The trip editor (\<^verbatim>\<open>recalculateTrip\<close>) and the map view (\<^verbatim>\<open>drawTripRoute\<close>) both split
  the location list \<^verbatim>\<open>[start, ...stop addresses, end]\<close> into route requests with the loop
  \<^verbatim>\<open>
  for (let i = 0; i < locations.length - 1; i += (MAX_WAYPOINTS_PER_REQUEST + 1)) {
      const origin = locations[i];
      const chunkEndIndex = Math.min(i + MAX_WAYPOINTS_PER_REQUEST + 1, locations.length - 1);
      const destination = locations[chunkEndIndex];
      const waypoints = locations.slice(i + 1, chunkEndIndex) ...
  \<close>
  JavaScript numbers are modelled as exact rationals; the rounding of IEEE doubles is
  not part of the model.
\<close>

type_synonym number = rat

definition MAX_WAYPOINTS_PER_REQUEST :: nat where
  "MAX_WAYPOINTS_PER_REQUEST = 25"

record route_request =
  origin :: string
  destination :: string
  waypoints :: "string list"

text \<open>\<^verbatim>\<open>xs.slice(a, b)\<close> for \<open>0 \<le> a\<close>, \<open>0 \<le> b\<close>: the elements at indices \<open>a, ..., b - 1\<close>.\<close>

definition slice :: "nat \<Rightarrow> nat \<Rightarrow> 'a list \<Rightarrow> 'a list" where
  "slice a b xs = take (b - a) (drop a xs)"

text \<open>
  The loop, from index \<open>i\<close> on, with the waypoint limit as a parameter \<open>W\<close>. Both reads
  \<open>locations ! i\<close> and \<open>locations ! chunkEndIndex\<close> are in range under the loop
  condition, so no \<^verbatim>\<open>undefined\<close> arises.
\<close>

function chunkLoop :: "nat \<Rightarrow> string list \<Rightarrow> nat \<Rightarrow> route_request list" where
  "chunkLoop W locations i =
     (if i < length locations - 1 then
        let chunkEndIndex = min (i + W + 1) (length locations - 1) in
          \<lparr>origin = locations ! i,
           destination = locations ! chunkEndIndex,
           waypoints = slice (i + 1) chunkEndIndex locations\<rparr>
          # chunkLoop W locations (i + (W + 1))
      else [])"
  by pat_completeness auto
termination
  by (relation "measure (\<lambda>(W, locations, i). length locations - 1 - i)") auto

declare chunkLoop.simps [simp del]

definition routeChunks :: "string list \<Rightarrow> route_request list" where
  "routeChunks locations = chunkLoop MAX_WAYPOINTS_PER_REQUEST locations 0"

text \<open>
  The route service answers a request with one leg per consecutive pair of the points
  \<open>origin, waypoints, destination\<close>. What a leg holds is the service's business: the
  function \<open>leg\<close> from a pair of addresses to a leg is a parameter.
\<close>

definition route_points :: "route_request \<Rightarrow> string list" where
  "route_points r = origin r # waypoints r @ [destination r]"

definition consecutive :: "'a list \<Rightarrow> ('a \<times> 'a) list" where
  "consecutive xs = zip xs (tl xs)"

definition request_legs :: "(string \<Rightarrow> string \<Rightarrow> 'l) \<Rightarrow> route_request \<Rightarrow> 'l list" where
  "request_legs leg r = map (\<lambda>(a, b). leg a b) (consecutive (route_points r))"

text \<open>The single hypothetical request that carries every stop as a waypoint.\<close>

definition unchunked :: "string \<Rightarrow> string list \<Rightarrow> string \<Rightarrow> route_request" where
  "unchunked startLoc stopAddresses endLoc =
     \<lparr>origin = startLoc, destination = endLoc, waypoints = stopAddresses\<rparr>"

text \<open>
  A leg as the directions service reports it: \<^verbatim>\<open>leg.distance?.value\<close> (metres) and
  \<^verbatim>\<open>leg.duration?.value\<close> (seconds), each possibly absent.
\<close>

record route_leg =
  distance :: "number option"
  duration :: "number option"

text \<open>
  The aggregation of \<^verbatim>\<open>recalculateTrip\<close> over the legs of one response:
  \<^verbatim>\<open>
  totalMiles += (leg.distance?.value || 0) * 0.000621371;
  travelSeconds += leg.duration?.value || 0;
  \<close>
\<close>

definition orZero :: "number option \<Rightarrow> number" where
  "orZero v = (case v of None \<Rightarrow> 0 | Some x \<Rightarrow> x)"

definition addLeg :: "number \<times> number \<Rightarrow> route_leg \<Rightarrow> number \<times> number" where
  "addLeg acc l =
     (fst acc + orZero (distance l) * (621371 / 1000000000), snd acc + orZero (duration l))"

definition addLegs :: "route_leg list \<Rightarrow> number \<times> number \<Rightarrow> number \<times> number" where
  "addLegs ls acc = foldl addLeg acc ls"

section \<open>Trip editor: the working trip and its recalculation\<close>

record SuggestedStop =
  workOrderId :: string
  address :: string
  serviceTimeMinutes :: number

text \<open>
  \<^verbatim>\<open>SuggestedTrip\<close> of the types file. The fields \<^verbatim>\<open>id\<close> and \<^verbatim>\<open>name\<close> are written
  \<open>sug_id\<close> and \<open>sug_name\<close>, \<^verbatim>\<open>tripNumber\<close> is \<open>sug_tripNumber\<close> (the persisted
  trip has fields of the same names); optional fields are options.
\<close>

record SuggestedTrip =
  sug_id :: string
  sug_name :: string
  sug_tripNumber :: "string option"
  stops :: "SuggestedStop list"
  totalMinutes :: number
  travelMinutes :: number
  serviceMinutes :: number
  totalMiles :: number
  estimatedPayout :: number
  reasoning :: string
  color :: "string option"
  startLocation :: string
  endLocation :: string
  violation_warning :: "string option"
  actualTotalMinutes :: "number option"
  actualTotalMiles :: "number option"

text \<open>The React state of \<^verbatim>\<open>PlannedTripEditor\<close> that recalculation reads and writes.\<close>

record editor =
  editableTrip :: "SuggestedTrip option"
  isRecalculating :: bool
  recalculationError :: "string option"

text \<open>\<^verbatim>\<open>[tripToCalc.startLocation, ...allStops, tripToCalc.endLocation]\<close>\<close>

definition tripLocations :: "SuggestedTrip \<Rightarrow> string list" where
  "tripLocations tripToCalc =
     startLocation tripToCalc # map address (stops tripToCalc) @ [endLocation tripToCalc]"

text \<open>
  The request loop of \<^verbatim>\<open>recalculateTrip\<close>. The executor of \<^verbatim>\<open>new Promise\<close> runs at
  once, so a chunk's request is issued to the directions service in the iteration that
  builds it. The check \<^verbatim>\<open>if (!origin || !destination)\<close> sits inside the loop, before the
  request of the current chunk. Result: \<open>Inr rs\<close> when the loop ran to its end having
  issued \<open>rs\<close>; \<open>Inl rs\<close> when it returned at a missing origin or destination, with
  \<open>rs\<close> the requests issued before that.
\<close>

function requestLoop :: "string list \<Rightarrow> nat \<Rightarrow> route_request list + route_request list" where
  "requestLoop locations i =
     (if i < length locations - 1 then
        let chunkEndIndex = min (i + MAX_WAYPOINTS_PER_REQUEST + 1) (length locations - 1) in
          if locations ! i = [] \<or> locations ! chunkEndIndex = [] then Inl []
          else
            (case requestLoop locations (i + (MAX_WAYPOINTS_PER_REQUEST + 1)) of
               Inl issued \<Rightarrow>
                 Inl (\<lparr>origin = locations ! i, destination = locations ! chunkEndIndex,
                       waypoints = slice (i + 1) chunkEndIndex locations\<rparr> # issued)
             | Inr issued \<Rightarrow>
                 Inr (\<lparr>origin = locations ! i, destination = locations ! chunkEndIndex,
                       waypoints = slice (i + 1) chunkEndIndex locations\<rparr> # issued))
      else Inr [])"
  by pat_completeness auto
termination
  by (relation "measure (\<lambda>(locations, i). length locations - 1 - i)") auto

declare requestLoop.simps [simp del]

text \<open>
  The map view's \<^verbatim>\<open>drawTripRoute\<close> checks both endpoints once, before its loop:
  \<^verbatim>\<open>if (!trip.startLocation || !trip.endLocation) return;\<close>
\<close>

definition drawTripRoute :: "SuggestedTrip \<Rightarrow> route_request list" where
  "drawTripRoute trip =
     (if startLocation trip = [] \<or> endLocation trip = [] then []
      else routeChunks (tripLocations trip))"

text \<open>
  A response of the directions service: \<^verbatim>\<open>{result, status}\<close>, where
  \<^verbatim>\<open>result.routes[0].legs\<close> is read on success.
\<close>

record directions_route =
  legs :: "route_leg list"

record directions_result =
  routes :: "directions_route list"

record route_response =
  result :: "directions_result option"
  status :: string

definition routeErrorMessage :: "string \<Rightarrow> string" where
  "routeErrorMessage st =
     (if st = ''NOT_FOUND'' \<or> st = ''ZERO_RESULTS''
      then ''Could not find a route. Please check if all addresses are correct and accessible.''
      else ''Route calculation failed. (Error: '' @ st @ '')'')"

text \<open>
  The loop over the joined responses. \<open>Totals\<close>: every response was \<^verbatim>\<open>OK\<close> with a
  result (\<^verbatim>\<open>hasError\<close> stayed false); \<open>RouteError\<close>: the loop broke at the first response
  that was not, with the message it set; \<open>Thrown\<close>: \<^verbatim>\<open>routes[0]\<close> was \<^verbatim>\<open>undefined\<close>
  and reading \<^verbatim>\<open>.legs\<close> threw, which the \<^verbatim>\<open>catch\<close> turns into a message.
\<close>

datatype aggregation = Totals number number | RouteError string | Thrown

fun processResponses :: "route_response list \<Rightarrow> number \<times> number \<Rightarrow> aggregation" where
  "processResponses [] acc = Totals (fst acc) (snd acc)"
| "processResponses (response # rest) acc =
     (case result response of
        None \<Rightarrow> RouteError (routeErrorMessage (status response))
      | Some res \<Rightarrow>
          if status response = ''OK'' then
            (case routes res of
               [] \<Rightarrow> Thrown
             | route # _ \<Rightarrow> processResponses rest (addLegs (legs route) acc))
          else RouteError (routeErrorMessage (status response)))"

text \<open>\<^verbatim>\<open>Math.round\<close>: the nearest integer, halves towards \<open>+\<infinity>\<close>.\<close>

definition js_round :: "number \<Rightarrow> number" where
  "js_round x = of_int \<lfloor>x + 1 / 2\<rfloor>"

definition sumServiceMinutes :: "SuggestedStop list \<Rightarrow> number" where
  "sumServiceMinutes ss = foldl (\<lambda>acc stop. acc + serviceTimeMinutes stop) 0 ss"

text \<open>
  \<^verbatim>\<open>recalculateTrip\<close> up to \<^verbatim>\<open>await Promise.all(requestPromises)\<close>. \<open>mapsLoaded\<close> tells
  whether \<^verbatim>\<open>loadGoogleMapsScript()\<close> resolved. The result is the editor state, the
  requests issued to the directions service, and whether the function is now awaiting
  their responses (otherwise it has returned).
\<close>

definition recalculateTrip_begin ::
    "bool \<Rightarrow> SuggestedTrip \<Rightarrow> editor \<Rightarrow> editor \<times> route_request list \<times> bool" where
  "recalculateTrip_begin mapsLoaded tripToCalc st =
     (let st1 = st\<lparr>isRecalculating := True, recalculationError := None\<rparr> in
      if \<not> mapsLoaded then
        (st1\<lparr>recalculationError :=
               Some ''Could not load Google Maps API. Please check your connection.'',
             isRecalculating := False\<rparr>, [], False)
      else
        (case requestLoop (tripLocations tripToCalc) 0 of
           Inl issued \<Rightarrow>
             (st1\<lparr>recalculationError :=
                    Some ''Start or End location is missing. Cannot calculate route.'',
                  isRecalculating := False\<rparr>, issued, False)
         | Inr issued \<Rightarrow> (st1, issued, True)))"

text \<open>
  \<^verbatim>\<open>recalculateTrip\<close> from the point where the joined responses arrive. \<open>tripToCalc\<close>
  is the trip the call was made with (its closure); \<open>st\<close> is the editor state at the
  moment the responses arrive. The update is the functional one of the source,
  \<^verbatim>\<open>setEditableTrip(prev => prev ? { ...prev, totalMiles, ... } : null)\<close>.
\<close>

definition recalculateTrip_finish ::
    "SuggestedTrip \<Rightarrow> route_response list \<Rightarrow> editor \<Rightarrow> editor" where
  "recalculateTrip_finish tripToCalc responses st =
     (case processResponses responses (0, 0) of
        Totals miles travelSeconds \<Rightarrow>
          (let travelMins = js_round (travelSeconds / 60);
               serviceMins = sumServiceMinutes (stops tripToCalc) in
           st\<lparr>editableTrip :=
                 map_option (\<lambda>prev. prev\<lparr>totalMiles := miles, travelMinutes := travelMins,
                                           serviceMinutes := serviceMins,
                                           totalMinutes := travelMins + serviceMins\<rparr>)
                   (editableTrip st),
               isRecalculating := False\<rparr>)
      | RouteError msg \<Rightarrow> st\<lparr>recalculationError := Some msg, isRecalculating := False\<rparr>
      | Thrown \<Rightarrow>
          st\<lparr>recalculationError :=
                Some ''An unexpected error occurred during route calculation.'',
              isRecalculating := False\<rparr>)"

text \<open>
  A recalculation in flight: the trip it was called with and the requests it issued. Its
  responses arrive later, one per request, at a moment the editor does not choose.
\<close>

type_synonym in_flight = "SuggestedTrip \<times> route_request list"

text \<open>
  \<^verbatim>\<open>handleStopsChange\<close>: replace the stop array and start a recalculation of the
  updated trip. The second component is the recalculation now in flight, when the call
  got as far as awaiting its responses.
\<close>

definition handleStopsChange ::
    "bool \<Rightarrow> SuggestedStop list \<Rightarrow> editor \<Rightarrow> editor \<times> in_flight option" where
  "handleStopsChange mapsLoaded newStops st =
     (case editableTrip st of
        None \<Rightarrow> (st, None)
      | Some trip \<Rightarrow>
          (let updatedTrip = trip\<lparr>stops := newStops\<rparr>;
               begun = recalculateTrip_begin mapsLoaded updatedTrip
                         (st\<lparr>editableTrip := Some updatedTrip\<rparr>)
           in (fst begun,
               if snd (snd begun) then Some (updatedTrip, fst (snd begun)) else None)))"

text \<open>The four displayed metrics a recalculation writes.\<close>

definition metrics :: "SuggestedTrip \<Rightarrow> number \<times> number \<times> number \<times> number" where
  "metrics trip = (totalMiles trip, travelMinutes trip, serviceMinutes trip, totalMinutes trip)"

definition displayedMetrics :: "editor \<Rightarrow> (number \<times> number \<times> number \<times> number) option" where
  "displayedMetrics st = map_option metrics (editableTrip st)"

text \<open>The answer of a route service that reports the leg \<open>leg a b\<close> between \<open>a\<close> and \<open>b\<close>.\<close>

definition respond :: "(string \<Rightarrow> string \<Rightarrow> route_leg) \<Rightarrow> route_request \<Rightarrow> route_response" where
  "respond leg r =
     \<lparr>result = Some \<lparr>routes = [\<lparr>legs = request_legs leg r\<rparr>]\<rparr>, status = ''OK''\<rparr>"

text \<open>An example trip of thirty stops, with the addresses \<open>s\<close>, \<open>ss\<close>, \<open>sss\<close>, ...\<close>

definition thirtyStops :: "string list" where
  "thirtyStops = map (\<lambda>n. replicate (Suc n) CHR ''s'') [0..<30]"

section \<open>Strings of numbers\<close>

text \<open>\<^verbatim>\<open>n.toString()\<close> for an integer, in decimal.\<close>

definition digit_char :: "nat \<Rightarrow> char" where
  "digit_char d = char_of (48 + d)"

fun show_nat :: "nat \<Rightarrow> string" where
  "show_nat n = (if n < 10 then [digit_char n] else show_nat (n div 10) @ [digit_char (n mod 10)])"

declare show_nat.simps [simp del]

definition show_int :: "int \<Rightarrow> string" where
  "show_int i = (if i < 0 then CHR ''-'' # show_nat (nat (- i)) else show_nat (nat i))"

text \<open>\<^verbatim>\<open>s.padStart(n, c)\<close> with a one-character pad, \<^verbatim>\<open>s.slice(-n)\<close> and \<^verbatim>\<open>s.startsWith(p)\<close>.\<close>

definition padStart :: "nat \<Rightarrow> char \<Rightarrow> string \<Rightarrow> string" where
  "padStart n c s = replicate (n - length s) c @ s"

definition sliceFromEnd :: "nat \<Rightarrow> string \<Rightarrow> string" where
  "sliceFromEnd n s = drop (length s - n) s"

definition startsWith :: "string \<Rightarrow> string \<Rightarrow> bool" where
  "startsWith s p = (take (length p) s = p)"

text \<open>\<^verbatim>\<open>s.includes(p)\<close>: \<open>p\<close> occurs in \<open>s\<close> as a contiguous substring.\<close>

fun str_includes :: "string \<Rightarrow> string \<Rightarrow> bool" where
  "str_includes [] p = (p = [])"
| "str_includes (c # s) p = (take (length p) (c # s) = p \<or> str_includes s p)"

section \<open>Work orders and the add-stops edit\<close>

datatype OrderStatus = PendingReview | Pending | Active | Completed | Invoiced | Paid

text \<open>
  \<^verbatim>\<open>WorkOrder\<close> and \<^verbatim>\<open>WorkOrderType\<close>; \<^verbatim>\<open>id\<close>, \<^verbatim>\<open>status\<close> and \<^verbatim>\<open>address\<close> of a work
  order are \<open>wo_id\<close>, \<open>wo_status\<close> and \<open>wo_address\<close>, \<^verbatim>\<open>id\<close> and \<^verbatim>\<open>typeName\<close> of a
  type are \<open>wot_id\<close> and \<open>wot_typeName\<close>.
\<close>

record WorkOrder =
  wo_id :: string
  orderId :: string
  dueDate :: string
  startDate :: "string option"
  typeName :: string
  clientName :: string
  companyName :: string
  baseRate :: number
  miscFee :: number
  resources :: "string list"
  isFollowUp :: bool
  wo_status :: OrderStatus
  wo_address :: string
  description :: "string option"
  completedDate :: "string option"
  invoicedDate :: "string option"

record WorkOrderType =
  wot_id :: string
  wot_typeName :: string
  defaultCompanyId :: string
  defaultBaseRate :: number
  defaultResourcesNeeded :: "string list"
  isArchived :: "bool option"
  defaultServiceTimeSeconds :: number
  useAverageServiceTime :: "bool option"

definition getOrder :: "WorkOrder list \<Rightarrow> string \<Rightarrow> WorkOrder option" where
  "getOrder workOrders i = find (\<lambda>wo. wo_id wo = i) workOrders"

definition getType :: "WorkOrderType list \<Rightarrow> string \<Rightarrow> WorkOrderType option" where
  "getType workOrderTypes tn = find (\<lambda>t. wot_typeName t = tn) workOrderTypes"

text \<open>
  The stop that \<^verbatim>\<open>handleAddStops\<close> builds for one requested id:
  \<^verbatim>\<open>
  const order = getOrder(id);
  const type = order ? getType(order.typeName) : undefined;
  const serviceTime = Math.round((type?.defaultServiceTimeSeconds || 0) / 60);
  return { workOrderId: id, address: order?.address || '', serviceTimeMinutes: serviceTime };
  \<close>
\<close>

definition stopForOrder :: "WorkOrder list \<Rightarrow> WorkOrderType list \<Rightarrow> string \<Rightarrow> SuggestedStop" where
  "stopForOrder workOrders workOrderTypes i =
     (let order = getOrder workOrders i;
          type = (case order of None \<Rightarrow> None | Some ord \<Rightarrow> getType workOrderTypes (typeName ord));
          serviceTime =
            js_round ((case type of None \<Rightarrow> 0 | Some t \<Rightarrow> defaultServiceTimeSeconds t) / 60)
      in \<lparr>workOrderId = i,
          address = (case order of None \<Rightarrow> [] | Some ord \<Rightarrow> wo_address ord),
          serviceTimeMinutes = serviceTime\<rparr>)"

text \<open>
  \<^verbatim>\<open>handleAddStops\<close>: the stops with a non-empty address, those whose id is not among
  the current stops, appended to the current stops and handed to
  \<^verbatim>\<open>handleStopsChange\<close>.
\<close>

definition uniqueNewStops ::
    "WorkOrder list \<Rightarrow> WorkOrderType list \<Rightarrow> SuggestedStop list \<Rightarrow> string list \<Rightarrow> SuggestedStop list" where
  "uniqueNewStops workOrders workOrderTypes current workOrderIds =
     (let newStops = filter (\<lambda>s. address s \<noteq> [])
                       (map (stopForOrder workOrders workOrderTypes) workOrderIds);
          currentStopIds = set (map workOrderId current)
      in filter (\<lambda>s. workOrderId s \<notin> currentStopIds) newStops)"

definition handleAddStops ::
    "bool \<Rightarrow> WorkOrder list \<Rightarrow> WorkOrderType list \<Rightarrow> string list \<Rightarrow> editor
       \<Rightarrow> editor \<times> in_flight option" where
  "handleAddStops mapsLoaded workOrders workOrderTypes workOrderIds st =
     (let current = (case editableTrip st of None \<Rightarrow> [] | Some trip \<Rightarrow> stops trip)
      in handleStopsChange mapsLoaded
           (current @ uniqueNewStops workOrders workOrderTypes current workOrderIds) st)"

section \<open>Trip Constraint Planner: the oracle's reply\<close>

text \<open>
  What the response schema of \<^verbatim>\<open>generateOptimalRoute\<close> lets the oracle return: a stop is
  \<^verbatim>\<open>{workOrderId, address}\<close>, a suggestion has the fields below (prefixed \<open>o_\<close>), the
  reply is \<^verbatim>\<open>{suggestions, explanation?}\<close>.
\<close>

record oracle_stop =
  o_workOrderId :: string
  o_address :: string

record oracle_trip =
  o_name :: string
  o_stops :: "oracle_stop list"
  o_totalMinutes :: number
  o_totalMiles :: number
  o_estimatedPayout :: number
  o_reasoning :: string
  o_startLocation :: string
  o_endLocation :: string
  o_violation_warning :: "string option"

text \<open>\<^verbatim>\<open>{ ...trip, id: ..., color: ... }\<close>\<close>

record planned_trip = oracle_trip +
  p_id :: string
  p_color :: string

record oracle_json =
  suggestions :: "oracle_trip list option"
  explanation :: "string option"

text \<open>
  The outcome of the call and of \<^verbatim>\<open>JSON.parse\<close>: an exception with its message, or the
  parsed value (\<open>None\<close> for a falsy one such as \<^verbatim>\<open>null\<close>).
\<close>

datatype oracle_reply = Threw string | Replied "oracle_json option"

record RouteGenerationResult =
  r_suggestions :: "planned_trip list"
  r_explanation :: "string option"

definition tripColors :: "string list" where
  "tripColors = [''#4F46E5'', ''#059669'', ''#DB2777'', ''#D97706'', ''#6D28D9'']"

text \<open>
  \<^verbatim>\<open>generateOptimalRoute\<close> from the oracle's reply on. \<open>now index\<close> is the reading of
  \<^verbatim>\<open>Date.now()\<close> when the suggestion at \<open>index\<close> is mapped. The orders are used for the
  prompt only; the reply is whatever the oracle made of it.
\<close>

definition withId :: "(nat \<Rightarrow> int) \<Rightarrow> nat \<Rightarrow> oracle_trip \<Rightarrow> planned_trip" where
  "withId now index trip =
     \<lparr>o_name = o_name trip, o_stops = o_stops trip, o_totalMinutes = o_totalMinutes trip,
      o_totalMiles = o_totalMiles trip, o_estimatedPayout = o_estimatedPayout trip,
      o_reasoning = o_reasoning trip, o_startLocation = o_startLocation trip,
      o_endLocation = o_endLocation trip, o_violation_warning = o_violation_warning trip,
      p_id = ''suggested-'' @ show_int (now index) @ ''-'' @ show_nat index,
      p_color = tripColors ! (index mod length tripColors)\<rparr>"

definition generateOptimalRoute ::
    "(nat \<Rightarrow> int) \<Rightarrow> WorkOrder list \<Rightarrow> oracle_reply \<Rightarrow> string + RouteGenerationResult" where
  "generateOptimalRoute now orders reply =
     (case reply of
        Threw msg \<Rightarrow>
          if str_includes msg ''JSON'' then
            Inl (''The AI planner returned a malformed response. This can sometimes happen with complex addresses. Please try again. Raw error: '' @ msg)
          else
            Inl ''The AI planner failed to generate a route. This could be due to network issues, restrictive constraints, or an invalid response format. Please try again.''
      | Replied None \<Rightarrow> Inr \<lparr>r_suggestions = [], r_explanation = None\<rparr>
      | Replied (Some jsonResponse) \<Rightarrow>
          (case suggestions jsonResponse of
             None \<Rightarrow> Inr \<lparr>r_suggestions = [], r_explanation = None\<rparr>
           | Some ss \<Rightarrow>
               Inr \<lparr>r_suggestions = map (\<lambda>(index, trip). withId now index trip) (enumerate 0 ss),
                    r_explanation = explanation jsonResponse\<rparr>))"

text \<open>The work-order ids over all stops of all trips, in order, with repetitions.\<close>

definition oracleStopIds :: "oracle_trip list \<Rightarrow> string list" where
  "oracleStopIds ts = concat (map (\<lambda>t. map o_workOrderId (o_stops t)) ts)"

definition plannedStopIds :: "planned_trip list \<Rightarrow> string list" where
  "plannedStopIds ts = concat (map (\<lambda>t. map o_workOrderId (o_stops t)) ts)"

text \<open>Full coverage: every input order's id in exactly one stop, and no other id.\<close>

definition coversExactly :: "WorkOrder list \<Rightarrow> string list \<Rightarrow> bool" where
  "coversExactly orders ids = (distinct ids \<and> set ids = set (map wo_id orders))"

section \<open>Persisted trips: numbering and lifecycle\<close>

record TripStop =
  ts_workOrderId :: string
  isCompleted :: bool
  timeSpentSeconds :: number

datatype TripStatus = TripPlanning | TripPlanned | TripActive | TripCompleted

text \<open>
  \<^verbatim>\<open>Trip\<close>; fields whose names the suggested trip or the route response already use carry
  the prefix \<open>trip_\<close>. Timestamps are milliseconds since the epoch; \<^verbatim>\<open>startTime\<close>
  absent, \<^verbatim>\<open>null\<close> or \<^verbatim>\<open>NaN\<close> is \<open>None\<close> (all three are falsy, and nothing else
  reads them).
\<close>

record Trip =
  trip_id :: string
  trip_name :: string
  tripNumber :: string
  trip_stops :: "TripStop list"
  startTime :: "int option"
  endTime :: "int option"
  totalTimeSeconds :: number
  trip_status :: TripStatus
  trip_startLocation :: string
  trip_endLocation :: string
  trip_totalMiles :: "number option"
  trip_estimatedPayout :: "number option"

text \<open>The part of \<^verbatim>\<open>AppState\<close> that trips and work orders live in.\<close>

record AppState =
  workOrderTypes :: "WorkOrderType list"
  workOrders :: "WorkOrder list"
  trips :: "Trip list"

text \<open>
  The local calendar fields of a \<^verbatim>\<open>Date\<close>: \<^verbatim>\<open>getFullYear()\<close>, \<^verbatim>\<open>getMonth()\<close> (0 to
  11) and \<^verbatim>\<open>getDate()\<close>. Which fields a timestamp has depends on the time zone of the
  platform: the conversion is a parameter \<open>toLocal\<close> of \<open>addTrip\<close>.
\<close>

record local_date =
  getFullYear :: int
  getMonth :: nat
  getDate :: nat

text \<open>
  \<^verbatim>\<open>
  const year = tripDate.getFullYear().toString().slice(-2);
  const month = (tripDate.getMonth() + 1).toString().padStart(2, '0');
  const day = tripDate.getDate().toString().padStart(2, '0');
  const datePrefix = `${month}${day}${year}`;
  \<close>
\<close>

definition datePrefix :: "local_date \<Rightarrow> string" where
  "datePrefix tripDate =
     (let year = sliceFromEnd 2 (show_int (getFullYear tripDate));
          month = padStart 2 CHR ''0'' (show_nat (getMonth tripDate + 1));
          day = padStart 2 CHR ''0'' (show_nat (getDate tripDate))
      in month @ day @ year)"

text \<open>
  \<^verbatim>\<open>newTrip.startTime ? new Date(newTrip.startTime) : new Date()\<close>: the start time counts
  when it is truthy, so a start time of 0 is treated like none.
\<close>

definition tripDateOf :: "(int \<Rightarrow> local_date) \<Rightarrow> int \<Rightarrow> Trip \<Rightarrow> local_date" where
  "tripDateOf toLocal nowDate newTrip =
     (case startTime newTrip of
        None \<Rightarrow> toLocal nowDate
      | Some t \<Rightarrow> if t \<noteq> 0 then toLocal t else toLocal nowDate)"

definition tripsOnSameDay :: "string \<Rightarrow> Trip list \<Rightarrow> Trip list" where
  "tripsOnSameDay prefix ts =
     filter (\<lambda>t. tripNumber t \<noteq> [] \<and> startsWith (tripNumber t) prefix) ts"

text \<open>
  \<^verbatim>\<open>dataService.addTrip\<close>, with the stored state passed in and returned. \<open>nowId\<close> is the
  reading of \<^verbatim>\<open>Date.now()\<close> for the id, \<open>nowDate\<close> the instant of \<^verbatim>\<open>new Date()\<close>.
\<close>

definition addTrip ::
    "(int \<Rightarrow> local_date) \<Rightarrow> int \<Rightarrow> int \<Rightarrow> AppState \<Rightarrow> Trip \<Rightarrow> AppState \<times> Trip" where
  "addTrip toLocal nowId nowDate state trip =
     (let newTrip = trip\<lparr>trip_id := show_int nowId\<rparr>;
          prefix = datePrefix (tripDateOf toLocal nowDate newTrip);
          newSuffix = length (tripsOnSameDay prefix (trips state)) + 1;
          numbered = newTrip\<lparr>tripNumber := prefix @ ''-'' @ show_nat newSuffix\<rparr>
      in (state\<lparr>trips := trips state @ [numbered]\<rparr>, numbered))"

text \<open>The reducer's trip actions.\<close>

datatype action = ADD_TRIP Trip | UPDATE_TRIP Trip | DELETE_TRIP string

fun appReducer :: "AppState \<Rightarrow> action \<Rightarrow> AppState" where
  "appReducer state (ADD_TRIP payload) = state\<lparr>trips := trips state @ [payload]\<rparr>"
| "appReducer state (UPDATE_TRIP payload) =
     state\<lparr>trips := map (\<lambda>t. if trip_id t = trip_id payload then payload else t) (trips state)\<rparr>"
| "appReducer state (DELETE_TRIP i) =
     state\<lparr>trips := filter (\<lambda>t. trip_id t \<noteq> i) (trips state)\<rparr>"

text \<open>
  The hook \<^verbatim>\<open>useTimer(initialSeconds)\<close>. \<open>intervalRef\<close> tells whether an interval is
  set; its callback is \<open>timer_tick\<close>, one call per second while it is set. \<^verbatim>\<open>stop\<close>
  pauses and returns the elapsed seconds. After a pause the hook's last effect sees
  \<^verbatim>\<open>isActive\<close> turn false and sets the elapsed seconds back to \<^verbatim>\<open>initialSeconds\<close>.
\<close>

record timer =
  initialSeconds :: number
  elapsedSeconds :: number
  isActive :: bool
  intervalRef :: bool

definition useTimer :: "number \<Rightarrow> timer" where
  "useTimer initial =
     \<lparr>initialSeconds = initial, elapsedSeconds = initial, isActive = False, intervalRef = False\<rparr>"

definition timer_start :: "timer \<Rightarrow> timer" where
  "timer_start t = (if \<not> isActive t then t\<lparr>isActive := True, intervalRef := True\<rparr> else t)"

definition timer_tick :: "timer \<Rightarrow> timer" where
  "timer_tick t = (if intervalRef t then t\<lparr>elapsedSeconds := elapsedSeconds t + 1\<rparr> else t)"

definition timer_pause :: "timer \<Rightarrow> timer" where
  "timer_pause t =
     (if isActive t \<and> intervalRef t
      then t\<lparr>isActive := False, intervalRef := False, elapsedSeconds := initialSeconds t\<rparr>
      else t)"

definition timer_stop :: "timer \<Rightarrow> timer \<times> number" where
  "timer_stop t = (timer_pause t, elapsedSeconds t)"

text \<open>
  \<^verbatim>\<open>handleStartTrip\<close> of the trips screen, on the trip list:
  \<^verbatim>\<open>updateTrip({ ...tripToStart, status: 'Active', startTime: Date.now() })\<close>, then for
  every stop whose order is found in the state the handler was rendered with,
  \<^verbatim>\<open>updateWorkOrder({...order, status: OrderStatus.Active})\<close>.
\<close>

definition activateOrder :: "AppState \<Rightarrow> AppState \<Rightarrow> TripStop \<Rightarrow> AppState" where
  "activateOrder state st stop =
     (case find (\<lambda>wo. wo_id wo = ts_workOrderId stop) (workOrders state) of
        None \<Rightarrow> st
      | Some order \<Rightarrow>
          st\<lparr>workOrders :=
               map (\<lambda>wo. if wo_id wo = wo_id order then order\<lparr>wo_status := Active\<rparr> else wo)
                 (workOrders st)\<rparr>)"

definition handleStartTrip :: "int \<Rightarrow> string \<Rightarrow> AppState \<Rightarrow> AppState" where
  "handleStartTrip now tripId state =
     (case find (\<lambda>t. trip_id t = tripId) (trips state) of
        None \<Rightarrow> state
      | Some tripToStart \<Rightarrow>
          foldl (activateOrder state)
            (appReducer state
               (UPDATE_TRIP (tripToStart\<lparr>trip_status := TripActive, startTime := Some now\<rparr>)))
            (trip_stops tripToStart))"

text \<open>
  What a component gets when it reads the member \<^verbatim>\<open>dispatch\<close> of the value of
  \<^verbatim>\<open>useAppContext()\<close>: the reducer's dispatch when the value has such a member,
  \<^verbatim>\<open>undefined\<close> (here \<open>None\<close>) when it has not.
\<close>

type_synonym dispatcher = "action \<Rightarrow> AppState \<Rightarrow> AppState"

text \<open>
  The value that \<^verbatim>\<open>AppProvider\<close> passes down is
  \<^verbatim>\<open>{ state, isLoading, addWorkOrderType, ..., addTrip, updateTrip, deleteTrip, ...,
  setEditingTarget, setPrintRequest }\<close>: the reducer's \<^verbatim>\<open>dispatch\<close> stays inside the
  provider and is no member of it. So \<^verbatim>\<open>const { state, dispatch } = useAppContext()\<close>
  of the active-trip screen binds \<^verbatim>\<open>dispatch\<close> to \<^verbatim>\<open>undefined\<close>.
\<close>

definition providedDispatch :: "dispatcher option" where
  "providedDispatch = None"

text \<open>Calling \<^verbatim>\<open>undefined\<close> throws a \<^verbatim>\<open>TypeError\<close>.\<close>

datatype js_exception = TypeError

text \<open>
  \<^verbatim>\<open>handleStopTrip\<close> of the active-trip screen; \<open>dispatch\<close> is what the screen read
  from the context, \<open>now\<close> is \<^verbatim>\<open>Date.now()\<close>, \<open>tm\<close> the trip's timer.
  \<^verbatim>\<open>
  if (!activeTrip) return;
  const finalTime = stopTripTimer();
  dispatch({ type: 'UPDATE_TRIP',
    payload: { ...activeTrip, status: 'Completed', endTime: Date.now(), totalTimeSeconds: finalTime } });
  \<close>
  The timer is stopped first; then the call of \<^verbatim>\<open>dispatch\<close> either throws, leaving the
  state as it was, or hands the action to the reducer. The result is the exception thrown,
  if any, the state and the timer.
\<close>

definition activeTripOf :: "AppState \<Rightarrow> Trip option" where
  "activeTripOf state = find (\<lambda>t. trip_status t = TripActive) (trips state)"

definition stoppedTrip :: "int \<Rightarrow> number \<Rightarrow> Trip \<Rightarrow> Trip" where
  "stoppedTrip now finalTime activeTrip =
     activeTrip\<lparr>trip_status := TripCompleted, endTime := Some now, totalTimeSeconds := finalTime\<rparr>"

definition handleStopTrip ::
    "dispatcher option \<Rightarrow> int \<Rightarrow> timer \<Rightarrow> AppState \<Rightarrow> js_exception option \<times> AppState \<times> timer" where
  "handleStopTrip dispatch now tm state =
     (case activeTripOf state of
        None \<Rightarrow> (None, state, tm)
      | Some activeTrip \<Rightarrow>
          (case dispatch of
             None \<Rightarrow> (Some TypeError, state, fst (timer_stop tm))
           | Some send \<Rightarrow>
               (None,
                send (UPDATE_TRIP (stoppedTrip now (snd (timer_stop tm)) activeTrip)) state,
                fst (timer_stop tm))))"

section \<open>Metrics: the rate computations\<close>

text \<open>
  The rates divide, so here a JavaScript number keeps its special values: a finite
  number (the rational it stands for; the sign of zero is not modelled), \<^verbatim>\<open>Infinity\<close>,
  \<^verbatim>\<open>-Infinity\<close> or \<^verbatim>\<open>NaN\<close>.
\<close>

datatype jsnum = Fin rat | PosInf | NegInf | NaN

text \<open>
  The quotient of two finite doubles is the exact quotient rounded to a double: it
  overflows to an infinity when the quotient is too large and underflows to zero when it is
  too small. The rounding belongs to the platform's arithmetic, not to this program: it is
  the parameter \<open>rnd\<close> of the division, and nothing is assumed of it.
\<close>

type_synonym rounding = "rat \<Rightarrow> jsnum"

fun js_gt :: "jsnum \<Rightarrow> jsnum \<Rightarrow> bool" where
  "js_gt NaN _ = False"
| "js_gt _ NaN = False"
| "js_gt (Fin a) (Fin b) = (b < a)"
| "js_gt PosInf PosInf = False"
| "js_gt PosInf _ = True"
| "js_gt NegInf _ = False"
| "js_gt (Fin a) NegInf = True"
| "js_gt (Fin a) PosInf = False"

text \<open>
  \<^verbatim>\<open>a / b\<close>. A zero divided by a finite number other than zero is zero, exactly; any other
  quotient of finite numbers is rounded.
\<close>

fun js_div :: "rounding \<Rightarrow> jsnum \<Rightarrow> jsnum \<Rightarrow> jsnum" where
  "js_div rnd NaN _ = NaN"
| "js_div rnd _ NaN = NaN"
| "js_div rnd (Fin a) (Fin b) =
     (if b = 0 then (if a = 0 then NaN else if 0 < a then PosInf else NegInf)
      else if a = 0 then Fin 0
      else rnd (a / b))"
| "js_div rnd (Fin a) PosInf = Fin 0"
| "js_div rnd (Fin a) NegInf = Fin 0"
| "js_div rnd PosInf (Fin b) = (if 0 \<le> b then PosInf else NegInf)"
| "js_div rnd NegInf (Fin b) = (if 0 \<le> b then NegInf else PosInf)"
| "js_div rnd PosInf PosInf = NaN"
| "js_div rnd PosInf NegInf = NaN"
| "js_div rnd NegInf PosInf = NaN"
| "js_div rnd NegInf NegInf = NaN"

text \<open>
  \<^verbatim>\<open>MetricsDisplay\<close>:
  \<^verbatim>\<open>
  const hours = totalMinutes / 60,
        perHourRate = hours > 0 ? estimatedPayout / hours : 0,
        perMileRate = totalMiles > 0 ? estimatedPayout / totalMiles : 0;
  \<close>
\<close>

definition perHourRate :: "rounding \<Rightarrow> jsnum \<Rightarrow> jsnum \<Rightarrow> jsnum" where
  "perHourRate rnd payout minutes =
     (let hours = js_div rnd minutes (Fin 60)
      in if js_gt hours (Fin 0) then js_div rnd payout hours else Fin 0)"

definition perMileRate :: "rounding \<Rightarrow> jsnum \<Rightarrow> jsnum \<Rightarrow> jsnum" where
  "perMileRate rnd payout miles =
     (if js_gt miles (Fin 0) then js_div rnd payout miles else Fin 0)"

text \<open>
  The office screen's \<^verbatim>\<open>kpis\<close>:
  \<^verbatim>\<open>perHourRate = totalTimeHours > 0 ? totalRevenue / totalTimeHours : 0\<close>; its
  per-mile rate is the constant \<^verbatim>\<open>2.50\<close>.
\<close>

definition kpis_perHourRate :: "rounding \<Rightarrow> jsnum \<Rightarrow> jsnum \<Rightarrow> jsnum" where
  "kpis_perHourRate rnd totalRevenue totalTimeHours =
     (if js_gt totalTimeHours (Fin 0) then js_div rnd totalRevenue totalTimeHours else Fin 0)"

definition kpis_perMileRate :: jsnum where
  "kpis_perMileRate = Fin (5 / 2)"

text \<open>
  An example of a rounding, for evaluating the rates: an infinity from \<open>2 ^ 1024\<close> on,
  zero up to \<open>1 / 2 ^ 1075\<close> (half the least positive double), and the quotient itself in
  between. Doubles round inside that range as well; for the quotients of the examples,
  which are doubles themselves or lie outside the range, this rounding gives the double.
\<close>

definition rangeRounding :: rounding where
  "rangeRounding x =
     (if 2 ^ 1024 \<le> x then PosInf
      else if x \<le> - (2 ^ 1024) then NegInf
      else if \<bar>x\<bar> \<le> 1 / 2 ^ 1075 then Fin 0
      else Fin x)"

text \<open>The least positive double, \<^verbatim>\<open>5e-324\<close>.\<close>

definition leastDouble :: rat where
  "leastDouble = 1 / 2 ^ 1074"

section \<open>Scenarios and predicates of the properties\<close>

text \<open>A response that makes the response loop set an error and break.\<close>

definition failedResponse :: "route_response \<Rightarrow> bool" where
  "failedResponse r = (\<not> (status r = ''OK'' \<and> result r \<noteq> None))"

text \<open>An \<^verbatim>\<open>OK\<close> response whose result has no route, where \<^verbatim>\<open>routes[0].legs\<close> throws.\<close>

definition routeless :: "route_response \<Rightarrow> bool" where
  "routeless r = (case result r of None \<Rightarrow> False | Some res \<Rightarrow> status r = ''OK'' \<and> routes res = [])"

text \<open>
  Two edits of the stop list, A then B, both with a recalculation in flight; the responses
  of B's recalculation arrive first, those of A's afterwards. The result is the editor
  state after B's responses and the state after A's.
\<close>

definition editA_editB_thenB_thenA ::
    "editor \<Rightarrow> SuggestedStop list \<Rightarrow> SuggestedStop list \<Rightarrow> route_response list
       \<Rightarrow> route_response list \<Rightarrow> (editor \<times> editor) option" where
  "editA_editB_thenB_thenA st0 stopsA stopsB responsesA responsesB =
     (case handleStopsChange True stopsA st0 of
        (st1, None) \<Rightarrow> None
      | (st1, Some flightA) \<Rightarrow>
          (case handleStopsChange True stopsB st1 of
             (st2, None) \<Rightarrow> None
           | (st2, Some flightB) \<Rightarrow>
               if length responsesA = length (snd flightA)
                  \<and> length responsesB = length (snd flightB)
               then
                 Some (recalculateTrip_finish (fst flightB) responsesB st2,
                       recalculateTrip_finish (fst flightA) responsesA
                         (recalculateTrip_finish (fst flightB) responsesB st2))
               else None))"

text \<open>Example data: a trip with given endpoints and stops, and a ready editor on it.\<close>

definition exampleTrip :: "string \<Rightarrow> SuggestedStop list \<Rightarrow> string \<Rightarrow> SuggestedTrip" where
  "exampleTrip startLoc ss endLoc =
     \<lparr>sug_id = ''t1'', sug_name = ''North Route'', sug_tripNumber = None, stops = ss,
      totalMinutes = 0, travelMinutes = 0, serviceMinutes = 0, totalMiles = 0,
      estimatedPayout = 0, reasoning = [], color = None,
      startLocation = startLoc, endLocation = endLoc, violation_warning = None,
      actualTotalMinutes = None, actualTotalMiles = None\<rparr>"

definition readyEditor :: "SuggestedTrip \<Rightarrow> editor" where
  "readyEditor trip =
     \<lparr>editableTrip = Some trip, isRecalculating = False, recalculationError = None\<rparr>"

definition stopAt :: "string \<Rightarrow> string \<Rightarrow> number \<Rightarrow> SuggestedStop" where
  "stopAt i a m = \<lparr>workOrderId = i, address = a, serviceTimeMinutes = m\<rparr>"

text \<open>A route service on which every leg is 1000 metres and 600 seconds long.\<close>

definition flatLeg :: "string \<Rightarrow> string \<Rightarrow> route_leg" where
  "flatLeg a b = \<lparr>distance = Some 1000, duration = Some 600\<rparr>"

text \<open>Example data for the recalculation: responses, a long trip without an end, two edits.\<close>

definition notFoundResponses :: "route_response list" where
  "notFoundResponses =
     [respond flatLeg \<lparr>origin = ''A'', destination = ''M'', waypoints = []\<rparr>,
      \<lparr>result = None, status = ''NOT_FOUND''\<rparr>]"

definition longTripNoEnd :: SuggestedTrip where
  "longTripNoEnd = exampleTrip ''A'' (map (\<lambda>a. stopAt a a 0) thirtyStops) []"

definition exampleStopsA :: "SuggestedStop list" where
  "exampleStopsA = [stopAt ''1'' ''X'' 10]"

definition exampleStopsB :: "SuggestedStop list" where
  "exampleStopsB = [stopAt ''1'' ''X'' 10, stopAt ''2'' ''Y'' 20]"

definition flatResponses :: "SuggestedStop list \<Rightarrow> route_response list" where
  "flatResponses ss = map (respond flatLeg) (routeChunks (tripLocations (exampleTrip ''A'' ss ''B'')))"

text \<open>
  The app's notion of a trip with a start time: a truthy \<^verbatim>\<open>startTime\<close>, as in
  \<^verbatim>\<open>newTrip.startTime ? ...\<close> of \<^verbatim>\<open>addTrip\<close> and \<^verbatim>\<open>if (!trip.startTime)\<close> of the
  planner's grouping into "No Date Assigned".
\<close>

definition startTimeSet :: "Trip \<Rightarrow> bool" where
  "startTimeSet trip = (case startTime trip of None \<Rightarrow> False | Some t \<Rightarrow> t \<noteq> 0)"

text \<open>Example data for the planner, the add-stops edit and the trip lifecycle.\<close>

definition exampleOrder :: "string \<Rightarrow> string \<Rightarrow> WorkOrder" where
  "exampleOrder i a =
     \<lparr>wo_id = i, orderId = ''ORD-'' @ i, dueDate = ''2026-11-30'', startDate = None,
      typeName = ''Courier Delivery'', clientName = ''Client'', companyName = ''Speedy Couriers'',
      baseRate = 50, miscFee = 0, resources = [], isFollowUp = False, wo_status = Pending,
      wo_address = a, description = None, completedDate = None, invoicedDate = None\<rparr>"

definition exampleOrders :: "WorkOrder list" where
  "exampleOrders = [exampleOrder ''wo-1'' ''1 Main St'', exampleOrder ''wo-2'' ''2 Oak Ave'']"

definition partialReply :: oracle_reply where
  "partialReply =
     Replied (Some \<lparr>suggestions = Some
        [\<lparr>o_name = ''North Route'',
          o_stops = [\<lparr>o_workOrderId = ''wo-1'', o_address = ''1 Main St''\<rparr>],
          o_totalMinutes = 45, o_totalMiles = 12, o_estimatedPayout = 50,
          o_reasoning = ''Closest order first.'', o_startLocation = ''Office'',
          o_endLocation = ''Office'', o_violation_warning = None\<rparr>],
        explanation = None\<rparr>)"

definition exampleTripRecord :: "string \<Rightarrow> string \<Rightarrow> int option \<Rightarrow> Trip" where
  "exampleTripRecord i n t =
     \<lparr>trip_id = i, trip_name = ''Route'', tripNumber = n,
      trip_stops = [\<lparr>ts_workOrderId = ''wo-1'', isCompleted = True, timeSpentSeconds = 900\<rparr>,
                    \<lparr>ts_workOrderId = ''wo-2'', isCompleted = False, timeSpentSeconds = 0\<rparr>],
      startTime = t, endTime = None, totalTimeSeconds = 7200, trip_status = TripPlanned,
      trip_startLocation = ''Office'', trip_endLocation = ''Office'',
      trip_totalMiles = Some 40, trip_estimatedPayout = Some 100\<rparr>"

text \<open>
  Three stored trips numbered on 2 November 2026 with suffixes 7, 9 and 9, one of another
  day; the local calendar of the example maps the instant 1000 to 2 November 2026 and
  every other instant to 24 December 2026.
\<close>

definition exampleState :: AppState where
  "exampleState =
     \<lparr>workOrderTypes = [], workOrders = exampleOrders,
      trips = [exampleTripRecord ''1'' ''110226-7'' None, exampleTripRecord ''2'' ''110226-9'' None,
               exampleTripRecord ''3'' ''110126-1'' None, exampleTripRecord ''4'' ''110226-9'' None]\<rparr>"

definition exampleCalendar :: "int \<Rightarrow> local_date" where
  "exampleCalendar t =
     (if t = 1000 then \<lparr>getFullYear = 2026, getMonth = 10, getDate = 2\<rparr>
      else \<lparr>getFullYear = 2026, getMonth = 11, getDate = 24\<rparr>)"

text \<open>One planned trip, with a stored total time of 7200 seconds (its planned estimate).\<close>

definition plannedState :: AppState where
  "plannedState =
     \<lparr>workOrderTypes = [], workOrders = exampleOrders,
      trips = [exampleTripRecord ''7'' ''110226-1'' None]\<rparr>"

section \<open>Verification: waypoint chunking\<close>

lemma consecutive_simps [simp]:
  "consecutive [] = []" "consecutive [x] = []"
  "consecutive (x # y # zs) = (x, y) # consecutive (y # zs)"
  by (simp_all add: consecutive_def)

lemma consecutive_take_drop:
  "consecutive (take (Suc n) ys) @ consecutive (drop n ys) = consecutive ys"
proof (induction n arbitrary: ys)
  case 0
  show ?case by (cases ys) simp_all
next
  case (Suc n)
  show ?case
  proof (cases ys)
    case Nil
    then show ?thesis by simp
  next
    case (Cons y ys')
    show ?thesis
    proof (cases ys')
      case Nil
      with Cons show ?thesis by simp
    next
      case (Cons z zs)
      with Suc [of ys'] \<open>ys = y # ys'\<close> show ?thesis by simp
    qed
  qed
qed

lemma chunk_points:
  assumes "i < length locations - 1" and "e = min (i + W + 1) (length locations - 1)"
  shows "route_points \<lparr>origin = locations ! i, destination = locations ! e,
           waypoints = slice (i + 1) e locations\<rparr> = take (Suc (e - i)) (drop i locations)"
proof -
  from assms have ie: "i < e" and el: "e < length locations" by auto
  obtain m where m: "e - i = Suc m" using ie by (cases "e - i") auto
  have "take (Suc (e - i)) (drop i locations)
      = locations ! i # take (Suc m) (drop (Suc i) locations)"
    using ie el m by (simp add: Cons_nth_drop_Suc [symmetric])
  also have "take (Suc m) (drop (Suc i) locations)
      = take m (drop (Suc i) locations) @ [drop (Suc i) locations ! m]"
    using ie el m by (intro take_Suc_conv_app_nth) simp
  also have "drop (Suc i) locations ! m = locations ! e"
  proof -
    have "Suc (i + m) = e" using ie m by arith
    with el show ?thesis by simp
  qed
  also have "take m (drop (Suc i) locations) = slice (i + 1) e locations"
  proof -
    have "m = e - Suc i" using m by arith
    then show ?thesis by (simp add: slice_def)
  qed
  finally show ?thesis by (simp add: route_points_def)
qed

lemma chunkLoop_points:
  "concat (map (\<lambda>r. consecutive (route_points r)) (chunkLoop W locations i))
     = consecutive (drop i locations)"
proof (induction W locations i rule: chunkLoop.induct)
  case (1 W locations i)
  show ?case
  proof (cases "i < length locations - 1")
    case False
    then have "length (drop i locations) \<le> 1" by simp
    then have "drop i locations = [] \<or> (\<exists>x. drop i locations = [x])"
      by (cases "drop i locations"; cases "tl (drop i locations)") auto
    with False show ?thesis by (subst chunkLoop.simps) auto
  next
    case True
    define e where "e = min (i + W + 1) (length locations - 1)"
    have ie: "i < e" and el: "e < length locations" using True by (auto simp: e_def)
    have rest: "concat (map (\<lambda>r. consecutive (route_points r)) (chunkLoop W locations (i + (W + 1))))
        = consecutive (drop e locations)"
    proof (cases "i + W + 1 \<le> length locations - 1")
      case True
      then have "e = i + (W + 1)" by (simp add: e_def)
      with "1.IH" [OF \<open>i < length locations - 1\<close> e_def] show ?thesis by simp
    next
      case False
      then have e: "e = length locations - 1" by (simp add: e_def)
      have "chunkLoop W locations (i + (W + 1)) = []"
        using False by (subst chunkLoop.simps) simp
      moreover have "drop e locations = [last locations]"
        using el e by (metis One_nat_def Suc_pred' append_butlast_last_id append_eq_conv_conj length_butlast length_greater_0_conv less_nat_zero_code list.size(3))
      ultimately show ?thesis by simp
    qed
    have step: "chunkLoop W locations i =
        \<lparr>origin = locations ! i, destination = locations ! e,
         waypoints = slice (i + 1) e locations\<rparr> # chunkLoop W locations (i + (W + 1))"
      using True by (subst chunkLoop.simps) (simp add: Let_def e_def)
    have "concat (map (\<lambda>r. consecutive (route_points r)) (chunkLoop W locations i))
        = consecutive (take (Suc (e - i)) (drop i locations)) @ consecutive (drop e locations)"
      by (simp only: step list.map concat.simps chunk_points [OF True e_def] rest)
    also have "drop e locations = drop (e - i) (drop i locations)"
      using ie by simp
    finally show ?thesis by (simp only: consecutive_take_drop)
  qed
qed


lemma chunkLoop_step:
  "i < length locations - 1 \<Longrightarrow>
   chunkLoop W locations i =
     \<lparr>origin = locations ! i,
      destination = locations ! min (i + W + 1) (length locations - 1),
      waypoints = slice (i + 1) (min (i + W + 1) (length locations - 1)) locations\<rparr>
     # chunkLoop W locations (i + (W + 1))"
  by (subst chunkLoop.simps) (simp add: Let_def)

lemma chunkLoop_stop: "\<not> i < length locations - 1 \<Longrightarrow> chunkLoop W locations i = []"
  by (subst chunkLoop.simps) simp

lemma chunkLoop_linked:
  "Suc k < length (chunkLoop W locations i) \<Longrightarrow>
   destination (chunkLoop W locations i ! k) = origin (chunkLoop W locations i ! Suc k)"
proof (induction k arbitrary: i)
  case 0
  have i: "i < length locations - 1"
    using 0 by (cases "i < length locations - 1") (simp_all add: chunkLoop_stop)
  have j: "i + (W + 1) < length locations - 1"
    using 0 by (cases "i + (W + 1) < length locations - 1")
      (simp_all add: chunkLoop_step [OF i] chunkLoop_stop)
  have a: "destination (chunkLoop W locations i ! 0)
      = locations ! min (i + W + 1) (length locations - 1)"
    by (subst chunkLoop_step [OF i]) simp
  have b: "origin (chunkLoop W locations i ! Suc 0) = locations ! (i + (W + 1))"
    by (subst chunkLoop_step [OF i], subst chunkLoop_step [OF j]) simp
  from j have "min (i + W + 1) (length locations - 1) = i + (W + 1)" by simp
  with a b show ?case by simp
next
  case (Suc k)
  have i: "i < length locations - 1"
    using Suc.prems by (cases "i < length locations - 1") (simp_all add: chunkLoop_stop)
  from Suc.prems have "Suc k < length (chunkLoop W locations (i + (W + 1)))"
    by (simp add: chunkLoop_step [OF i])
  from Suc.IH [OF this] show ?case
    by (simp add: chunkLoop_step [OF i])
qed

lemma chunkLoop_length:
  "length (chunkLoop W locations i) = (length locations - 1 - i + W) div (W + 1)"
proof (induction W locations i rule: chunkLoop.induct)
  case (1 W locations i)
  show ?case
  proof (cases "i < length locations - 1")
    case False
    then show ?thesis by (simp add: chunkLoop_stop)
  next
    case True
    define n where "n = length locations - 1 - i"
    have n: "0 < n" using True by (simp add: n_def)
    have "length (chunkLoop W locations i) = Suc ((n - (W + 1) + W) div (W + 1))"
      using "1.IH" [OF True refl] by (simp add: chunkLoop_step [OF True] n_def)
    also have "\<dots> = (n + W) div (W + 1)"
    proof (cases "n \<le> W + 1")
      case True
      with n have "(n + W) div (W + 1) = 1"
        by (intro div_nat_eqI) auto
      with True show ?thesis by simp
    next
      case False
      then have "n + W = (n - (W + 1) + W) + (W + 1)" by simp
      then have "(n + W) div (W + 1) = Suc ((n - (W + 1) + W) div (W + 1))"
        by (metis Suc_eq_plus1 div_add_self2 add_is_0 zero_neq_one)
      then show ?thesis by simp
    qed
    finally show ?thesis by (simp add: n_def)
  qed
qed

lemma processResponses_respond:
  "processResponses (map (respond leg) rs) acc =
     Totals (fst (addLegs (concat (map (request_legs leg) rs)) acc))
            (snd (addLegs (concat (map (request_legs leg) rs)) acc))"
  by (induction rs arbitrary: acc) (simp_all add: respond_def addLegs_def)

lemma route_points_unchunked:
  "route_points (unchunked startLoc stopAddresses endLoc) = startLoc # stopAddresses @ [endLoc]"
  by (simp add: route_points_def unchunked_def)

lemma routeChunks_legs:
  "concat (map (request_legs leg) (routeChunks (startLoc # stopAddresses @ [endLoc])))
     = request_legs leg (unchunked startLoc stopAddresses endLoc)"
proof -
  have "concat (map (request_legs leg) (routeChunks (startLoc # stopAddresses @ [endLoc])))
      = map (\<lambda>(a, b). leg a b)
          (concat (map (\<lambda>r. consecutive (route_points r))
             (routeChunks (startLoc # stopAddresses @ [endLoc]))))"
    by (simp add: request_legs_def [abs_def] map_concat comp_def)
  also have "\<dots> = map (\<lambda>(a, b). leg a b) (consecutive (startLoc # stopAddresses @ [endLoc]))"
    by (simp only: routeChunks_def chunkLoop_points drop_0)
  finally show ?thesis
    by (simp only: request_legs_def route_points_unchunked)
qed

lemma requestLoop_Inr:
  "requestLoop locations i = Inr rs \<Longrightarrow> rs = chunkLoop MAX_WAYPOINTS_PER_REQUEST locations i"
proof (induction locations i arbitrary: rs rule: requestLoop.induct)
  case (1 locations i)
  show ?case
  proof (cases "i < length locations - 1")
    case False
    with "1.prems" show ?thesis
      by (simp add: requestLoop.simps [of locations i] chunkLoop_stop)
  next
    case True
    define e where "e = min (i + MAX_WAYPOINTS_PER_REQUEST + 1) (length locations - 1)"
    from "1.prems" True have ne: "\<not> (locations ! i = [] \<or> locations ! e = [])"
      by (auto simp: requestLoop.simps [of locations i] e_def Let_def split: if_splits)
    from "1.prems" True ne obtain rest where
      rest: "requestLoop locations (i + (MAX_WAYPOINTS_PER_REQUEST + 1)) = Inr rest" and
      rs: "rs = \<lparr>origin = locations ! i, destination = locations ! e,
                  waypoints = slice (i + 1) e locations\<rparr> # rest"
      by (auto simp: requestLoop.simps [of locations i] e_def Let_def split: if_splits sum.splits)
    from "1.IH" [OF True e_def ne rest]
    have "rest = chunkLoop MAX_WAYPOINTS_PER_REQUEST locations (i + (MAX_WAYPOINTS_PER_REQUEST + 1))" .
    with rs show ?thesis
      by (simp add: chunkLoop_step [OF True] e_def)
  qed
qed

lemma requestLoop_nonempty:
  "list_all (\<lambda>a. a \<noteq> []) locations \<Longrightarrow>
   requestLoop locations i = Inr (chunkLoop MAX_WAYPOINTS_PER_REQUEST locations i)"
proof (induction locations i rule: requestLoop.induct)
  case (1 locations i)
  show ?case
  proof (cases "i < length locations - 1")
    case False
    then show ?thesis
      by (simp add: requestLoop.simps [of locations i] chunkLoop_stop)
  next
    case True
    define e where "e = min (i + MAX_WAYPOINTS_PER_REQUEST + 1) (length locations - 1)"
    have "i < length locations" "e < length locations" using True by (auto simp: e_def)
    with "1.prems" have ne: "\<not> (locations ! i = [] \<or> locations ! e = [])"
      by (auto simp: list_all_length)
    from "1.IH" [OF True e_def ne "1.prems"] ne True show ?thesis
      by (simp add: requestLoop.simps [of locations i] chunkLoop_step [OF True] e_def Let_def)
  qed
qed

text \<open>
  Claim C2. For every location list \<open>[start, stop_1, ..., stop_n, end]\<close>, the chunks of the
  loop are linked (the destination of chunk \<open>k\<close> is the origin of chunk \<open>k + 1\<close>), there
  are \<open>\<lceil>(n + 1) / 26\<rceil>\<close> of them (more than one from 26 stops on), the legs of the chunks
  in order are exactly the legs of the single unchunked request, none left out and none
  twice, and so the totals that the recalculation sums over the chunks' responses are those
  it would sum over the one unchunked response. When no address is empty, the requests
  that \<^verbatim>\<open>recalculateTrip\<close> issues are these chunks.
\<close>

theorem chunking_matches_unchunked:
  fixes leg :: "string \<Rightarrow> string \<Rightarrow> route_leg"
  shows
    "(\<forall>k. Suc k < length (routeChunks (startLoc # stopAddresses @ [endLoc])) \<longrightarrow>
          destination (routeChunks (startLoc # stopAddresses @ [endLoc]) ! k)
            = origin (routeChunks (startLoc # stopAddresses @ [endLoc]) ! Suc k))
     \<and> length (routeChunks (startLoc # stopAddresses @ [endLoc]))
          = (length stopAddresses + 1 + MAX_WAYPOINTS_PER_REQUEST) div (MAX_WAYPOINTS_PER_REQUEST + 1)
     \<and> concat (map (request_legs leg) (routeChunks (startLoc # stopAddresses @ [endLoc])))
          = request_legs leg (unchunked startLoc stopAddresses endLoc)
     \<and> processResponses (map (respond leg) (routeChunks (startLoc # stopAddresses @ [endLoc]))) (0, 0)
          = processResponses [respond leg (unchunked startLoc stopAddresses endLoc)] (0, 0)
     \<and> (list_all (\<lambda>a. a \<noteq> []) (startLoc # stopAddresses @ [endLoc]) \<longrightarrow>
          requestLoop (startLoc # stopAddresses @ [endLoc]) 0
            = Inr (routeChunks (startLoc # stopAddresses @ [endLoc])))"
proof (intro conjI allI impI)
  fix k
  assume "Suc k < length (routeChunks (startLoc # stopAddresses @ [endLoc]))"
  then show "destination (routeChunks (startLoc # stopAddresses @ [endLoc]) ! k)
      = origin (routeChunks (startLoc # stopAddresses @ [endLoc]) ! Suc k)"
    unfolding routeChunks_def by (rule chunkLoop_linked)
next
  show "length (routeChunks (startLoc # stopAddresses @ [endLoc]))
      = (length stopAddresses + 1 + MAX_WAYPOINTS_PER_REQUEST) div (MAX_WAYPOINTS_PER_REQUEST + 1)"
    by (simp add: routeChunks_def chunkLoop_length)
next
  show "concat (map (request_legs leg) (routeChunks (startLoc # stopAddresses @ [endLoc])))
      = request_legs leg (unchunked startLoc stopAddresses endLoc)"
    by (rule routeChunks_legs)
next
  have "processResponses [respond leg (unchunked startLoc stopAddresses endLoc)] (0, 0)
      = processResponses (map (respond leg) [unchunked startLoc stopAddresses endLoc]) (0, 0)"
    by simp
  then show "processResponses (map (respond leg) (routeChunks (startLoc # stopAddresses @ [endLoc]))) (0, 0)
      = processResponses [respond leg (unchunked startLoc stopAddresses endLoc)] (0, 0)"
    by (simp only: processResponses_respond routeChunks_legs) simp
next
  assume "list_all (\<lambda>a. a \<noteq> []) (startLoc # stopAddresses @ [endLoc])"
  then show "requestLoop (startLoc # stopAddresses @ [endLoc]) 0
      = Inr (routeChunks (startLoc # stopAddresses @ [endLoc]))"
    unfolding routeChunks_def by (rule requestLoop_nonempty)
qed

theorem chunking_matches_unchunked_witness:
  "Suc 0 < length (routeChunks (''A'' # thirtyStops @ [''B'']))
   \<and> length (routeChunks (''A'' # thirtyStops @ [''B''])) = 2
   \<and> destination (routeChunks (''A'' # thirtyStops @ [''B'']) ! 0) = replicate 26 CHR ''s''
   \<and> destination (routeChunks (''A'' # thirtyStops @ [''B'']) ! 0)
       = origin (routeChunks (''A'' # thirtyStops @ [''B'']) ! Suc 0)
   \<and> list_all (\<lambda>a. a \<noteq> []) (''A'' # thirtyStops @ [''B''])
   \<and> requestLoop (''A'' # thirtyStops @ [''B'']) 0
       = Inr (routeChunks (''A'' # thirtyStops @ [''B'']))"
proof -
  have len: "length (routeChunks (''A'' # thirtyStops @ [''B''])) = 2" by code_simp
  have d: "destination (routeChunks (''A'' # thirtyStops @ [''B'']) ! 0) = replicate 26 CHR ''s''"
    by code_simp
  have ne: "list_all (\<lambda>a. a \<noteq> []) (''A'' # thirtyStops @ [''B''])"
    by (simp add: thirtyStops_def list_all_iff)
  from len have "Suc 0 < length (routeChunks (''A'' # thirtyStops @ [''B'']))" by simp
  with chunking_matches_unchunked [of "''A''" thirtyStops "''B''"] len d ne show ?thesis
    by blast
qed

section \<open>Verification: recalculation outcomes\<close>

lemma processResponses_failed_no_totals:
  "\<exists>r\<in>set responses. failedResponse r \<Longrightarrow> processResponses responses acc \<noteq> Totals m s"
proof (induction responses arbitrary: acc)
  case Nil
  then show ?case by simp
next
  case (Cons response rest)
  show ?case
  proof (cases "failedResponse response")
    case True
    then show ?thesis
      by (auto simp: failedResponse_def split: option.splits list.splits)
  next
    case False
    with Cons.prems have "\<exists>r\<in>set rest. failedResponse r" by auto
    from Cons.IH [OF this] show ?thesis
      by (auto split: option.splits list.splits)
  qed
qed

lemma processResponses_error_message:
  "list_all (\<lambda>r. \<not> routeless r) responses \<Longrightarrow> \<exists>r\<in>set responses. failedResponse r \<Longrightarrow>
   \<exists>r. find failedResponse responses = Some r
       \<and> processResponses responses acc = RouteError (routeErrorMessage (status r))"
  by (induction responses arbitrary: acc)
     (auto simp: failedResponse_def routeless_def split: option.splits list.splits)

lemma routeErrorMessage_cases:
  "routeErrorMessage s =
     ''Could not find a route. Please check if all addresses are correct and accessible.''
   \<longleftrightarrow> s = ''NOT_FOUND'' \<or> s = ''ZERO_RESULTS''"
  by (simp add: routeErrorMessage_def)

text \<open>
  Claim C4. When at least one of the joined chunk responses failed, the recalculation
  aggregates nothing: the working trip, and with it the displayed metrics, stay as they
  were, the recalculating flag is cleared, and one error message is set. Unless an earlier
  \<^verbatim>\<open>OK\<close> response without a route made the loop throw, the message is that of the first
  failed response: the no-route message exactly for \<^verbatim>\<open>NOT_FOUND\<close> and
  \<^verbatim>\<open>ZERO_RESULTS\<close>, the route-calculation-failed message with the status otherwise.
\<close>

theorem chunk_failure_keeps_metrics:
  assumes "\<exists>r\<in>set responses. failedResponse r"
  shows "editableTrip (recalculateTrip_finish tripToCalc responses st) = editableTrip st
     \<and> displayedMetrics (recalculateTrip_finish tripToCalc responses st) = displayedMetrics st
     \<and> \<not> isRecalculating (recalculateTrip_finish tripToCalc responses st)
     \<and> (\<exists>msg. recalculationError (recalculateTrip_finish tripToCalc responses st) = Some msg)
     \<and> (list_all (\<lambda>r. \<not> routeless r) responses \<longrightarrow>
          (\<exists>r. find failedResponse responses = Some r
             \<and> recalculationError (recalculateTrip_finish tripToCalc responses st)
                 = Some (routeErrorMessage (status r))))
     \<and> (\<forall>s. (routeErrorMessage s =
                ''Could not find a route. Please check if all addresses are correct and accessible.'')
              = (s = ''NOT_FOUND'' \<or> s = ''ZERO_RESULTS''))
     \<and> (\<forall>s. s \<noteq> ''NOT_FOUND'' \<and> s \<noteq> ''ZERO_RESULTS'' \<longrightarrow>
              routeErrorMessage s = ''Route calculation failed. (Error: '' @ s @ '')'')"
proof -
  let ?st' = "recalculateTrip_finish tripToCalc responses st"
  have nt: "\<And>m s. processResponses responses (0, 0) \<noteq> Totals m s"
    using assms by (rule processResponses_failed_no_totals)
  have trip: "editableTrip ?st' = editableTrip st"
    using nt by (cases "processResponses responses (0, 0)")
      (auto simp: recalculateTrip_finish_def)
  have rec: "\<not> isRecalculating ?st'"
    by (cases "processResponses responses (0, 0)")
      (simp_all add: recalculateTrip_finish_def Let_def)
  have err: "\<exists>msg. recalculationError ?st' = Some msg"
    using nt by (cases "processResponses responses (0, 0)")
      (auto simp: recalculateTrip_finish_def)
  have msg: "\<exists>r. find failedResponse responses = Some r
      \<and> recalculationError ?st' = Some (routeErrorMessage (status r))"
    if "list_all (\<lambda>r. \<not> routeless r) responses"
  proof -
    from processResponses_error_message [OF that assms, of "(0, 0)"]
    obtain r where "find failedResponse responses = Some r"
      and "processResponses responses (0, 0) = RouteError (routeErrorMessage (status r))"
      by blast
    then show ?thesis by (auto simp: recalculateTrip_finish_def)
  qed
  have gen: "\<forall>s. s \<noteq> ''NOT_FOUND'' \<and> s \<noteq> ''ZERO_RESULTS'' \<longrightarrow>
      routeErrorMessage s = ''Route calculation failed. (Error: '' @ s @ '')''"
    by (simp add: routeErrorMessage_def)
  from trip rec err msg gen routeErrorMessage_cases show ?thesis
    by (simp add: displayedMetrics_def)
qed

theorem chunk_failure_keeps_metrics_witness:
  "editableTrip (recalculateTrip_finish (exampleTrip ''A'' [] ''B'') notFoundResponses
       (readyEditor (exampleTrip ''A'' [] ''B'')))
     = Some (exampleTrip ''A'' [] ''B'')
   \<and> recalculationError (recalculateTrip_finish (exampleTrip ''A'' [] ''B'') notFoundResponses
       (readyEditor (exampleTrip ''A'' [] ''B'')))
     = Some ''Could not find a route. Please check if all addresses are correct and accessible.''"
proof -
  have f: "\<exists>r\<in>set notFoundResponses. failedResponse r"
    by (simp add: notFoundResponses_def failedResponse_def)
  have n: "list_all (\<lambda>r. \<not> routeless r) notFoundResponses"
    by (simp add: notFoundResponses_def routeless_def respond_def)
  have ff: "find failedResponse notFoundResponses = Some \<lparr>result = None, status = ''NOT_FOUND''\<rparr>"
    by (simp add: notFoundResponses_def failedResponse_def respond_def)
  from chunk_failure_keeps_metrics [OF f, of "exampleTrip ''A'' [] ''B''"
      "readyEditor (exampleTrip ''A'' [] ''B'')"] n ff
  show ?thesis by (simp add: readyEditor_def routeErrorMessage_def)
qed

section \<open>Verification: missing endpoints\<close>

lemma recalculateTrip_begin_editableTrip:
  "editableTrip (fst (recalculateTrip_begin mapsLoaded tripToCalc st)) = editableTrip st"
  by (simp add: recalculateTrip_begin_def Let_def split: sum.splits)

lemma missing_start_no_request:
  "startLocation tripToCalc = [] \<Longrightarrow>
   recalculateTrip_begin True tripToCalc st =
     (st\<lparr>isRecalculating := False,
         recalculationError := Some ''Start or End location is missing. Cannot calculate route.''\<rparr>,
      [], False)"
  by (simp add: recalculateTrip_begin_def tripLocations_def requestLoop.simps [of _ 0])

lemma missing_end_short_no_request:
  "endLocation tripToCalc = [] \<Longrightarrow> length (stops tripToCalc) \<le> MAX_WAYPOINTS_PER_REQUEST \<Longrightarrow>
   recalculateTrip_begin True tripToCalc st =
     (st\<lparr>isRecalculating := False,
         recalculationError := Some ''Start or End location is missing. Cannot calculate route.''\<rparr>,
      [], False)"
  by (simp add: recalculateTrip_begin_def tripLocations_def requestLoop.simps [of _ 0]
       min_def nth_append)

lemma drawTripRoute_missing_end: "endLocation trip = [] \<Longrightarrow> drawTripRoute trip = []"
  by (simp add: drawTripRoute_def)

text \<open>
  Claim C5. The claim asks that an empty start or end location issues no request, however
  many stops the trip has. With an empty end and thirty stops, \<^verbatim>\<open>recalculateTrip\<close> has
  already sent the first chunk (from the start to the 26th stop) to the directions service
  when it reports the missing endpoint; the map view's \<^verbatim>\<open>drawTripRoute\<close>, which checks
  both endpoints before its loop, sends nothing for the same trip.
\<close>

theorem missing_end_issues_first_chunk:
  "fst (snd (recalculateTrip_begin True longTripNoEnd (readyEditor longTripNoEnd)))
     = [\<lparr>origin = ''A'', destination = replicate 26 CHR ''s'', waypoints = take 25 thirtyStops\<rparr>]
   \<and> recalculationError (fst (recalculateTrip_begin True longTripNoEnd (readyEditor longTripNoEnd)))
     = Some ''Start or End location is missing. Cannot calculate route.''
   \<and> drawTripRoute longTripNoEnd = []"
  by code_simp

section \<open>Verification: stale responses\<close>

lemma handleStopsChange_in_flight:
  assumes "handleStopsChange mapsLoaded newStops st = (st', Some flight)"
  shows "\<exists>trip. editableTrip st = Some trip \<and> editableTrip st' = Some (trip\<lparr>stops := newStops\<rparr>)
           \<and> fst flight = trip\<lparr>stops := newStops\<rparr>"
  using assms
  by (auto simp: handleStopsChange_def Let_def recalculateTrip_begin_editableTrip
           split: option.splits if_splits)

lemma recalculateTrip_finish_stops:
  "map_option stops (editableTrip (recalculateTrip_finish tripToCalc responses st))
     = map_option stops (editableTrip st)"
  by (cases "processResponses responses (0, 0)"; cases "editableTrip st")
     (simp_all add: recalculateTrip_finish_def Let_def)

lemma recalculateTrip_finish_totals:
  assumes "processResponses responses (0, 0) = Totals miles travelSeconds"
    and "editableTrip st = Some prev"
  shows "displayedMetrics (recalculateTrip_finish tripToCalc responses st)
     = Some (miles, js_round (travelSeconds / 60), sumServiceMinutes (stops tripToCalc),
             js_round (travelSeconds / 60) + sumServiceMinutes (stops tripToCalc))"
  using assms by (simp add: recalculateTrip_finish_def Let_def displayedMetrics_def metrics_def)

text \<open>
  Claim C1, as amended. Edit A and then edit B each start a recalculation; B's responses
  arrive first and A's afterwards. When A's responses are all successful, the displayed
  metrics are A's result (computed from A's responses and A's stops), beside the stop list
  of edit B: a response is applied to whatever trip is current when it arrives, and the
  last arrival wins.
\<close>

theorem last_arrival_wins:
  assumes "editA_editB_thenB_thenA st0 stopsA stopsB responsesA responsesB = Some (afterB, afterA)"
    and "processResponses responsesA (0, 0) = Totals miles travelSeconds"
  shows "displayedMetrics afterA
           = Some (miles, js_round (travelSeconds / 60), sumServiceMinutes stopsA,
                   js_round (travelSeconds / 60) + sumServiceMinutes stopsA)
     \<and> map_option stops (editableTrip afterA) = Some stopsB"
proof -
  from assms(1) obtain st1 flightA st2 flightB where
    a: "handleStopsChange True stopsA st0 = (st1, Some flightA)" and
    b: "handleStopsChange True stopsB st1 = (st2, Some flightB)" and
    afterB: "afterB = recalculateTrip_finish (fst flightB) responsesB st2" and
    afterA: "afterA = recalculateTrip_finish (fst flightA) responsesA afterB"
    by (auto simp: editA_editB_thenB_thenA_def split: prod.splits option.splits if_splits)
  from handleStopsChange_in_flight [OF a] obtain trip where
    fa: "fst flightA = trip\<lparr>stops := stopsA\<rparr>" by blast
  from handleStopsChange_in_flight [OF b] obtain trip1 where
    st2: "editableTrip st2 = Some (trip1\<lparr>stops := stopsB\<rparr>)" by blast
  have sB: "map_option stops (editableTrip afterB) = Some stopsB"
    by (simp add: afterB recalculateTrip_finish_stops st2)
  then obtain prev where prev: "editableTrip afterB = Some prev" by auto
  have "map_option stops (editableTrip afterA) = Some stopsB"
    by (simp add: afterA recalculateTrip_finish_stops sB)
  moreover have "displayedMetrics afterA
      = Some (miles, js_round (travelSeconds / 60), sumServiceMinutes stopsA,
              js_round (travelSeconds / 60) + sumServiceMinutes stopsA)"
    using recalculateTrip_finish_totals [OF assms(2) prev, of "fst flightA"]
    by (simp add: afterA fa)
  ultimately show ?thesis by simp
qed

lemma stale_scenario_value:
  "editA_editB_thenB_thenA (readyEditor (exampleTrip ''A'' [] ''B'')) exampleStopsA exampleStopsB
        (flatResponses exampleStopsA) (flatResponses exampleStopsB)
   = Some (recalculateTrip_finish (exampleTrip ''A'' exampleStopsB ''B'') (flatResponses exampleStopsB)
             (readyEditor (exampleTrip ''A'' exampleStopsB ''B'')\<lparr>isRecalculating := True\<rparr>),
           recalculateTrip_finish (exampleTrip ''A'' exampleStopsA ''B'') (flatResponses exampleStopsA)
             (recalculateTrip_finish (exampleTrip ''A'' exampleStopsB ''B'') (flatResponses exampleStopsB)
                (readyEditor (exampleTrip ''A'' exampleStopsB ''B'')\<lparr>isRecalculating := True\<rparr>)))"
  by code_simp

lemma stale_scenario_metrics:
  "map_option (displayedMetrics \<circ> fst)
     (editA_editB_thenB_thenA (readyEditor (exampleTrip ''A'' [] ''B'')) exampleStopsA exampleStopsB
        (flatResponses exampleStopsA) (flatResponses exampleStopsB))
     = Some (Some (1864113 / 1000000, 30, 30, 60))"
  "map_option (displayedMetrics \<circ> snd)
     (editA_editB_thenB_thenA (readyEditor (exampleTrip ''A'' [] ''B'')) exampleStopsA exampleStopsB
        (flatResponses exampleStopsA) (flatResponses exampleStopsB))
     = Some (Some (621371 / 500000, 20, 10, 30))"
  by code_simp+

text \<open>
  Claim C1, as stated, fails: with one stop after edit A and two after edit B, on a service
  where every leg takes 600 seconds, the metrics shown once B's responses arrived (60
  minutes in total) are replaced by A's (30 minutes) when A's responses arrive later.
\<close>

theorem stale_response_overwrites_newer:
  "map_option (displayedMetrics \<circ> fst)
     (editA_editB_thenB_thenA (readyEditor (exampleTrip ''A'' [] ''B'')) exampleStopsA exampleStopsB
        (flatResponses exampleStopsA) (flatResponses exampleStopsB))
     = Some (Some (1864113 / 1000000, 30, 30, 60))
   \<and> map_option (displayedMetrics \<circ> snd)
     (editA_editB_thenB_thenA (readyEditor (exampleTrip ''A'' [] ''B'')) exampleStopsA exampleStopsB
        (flatResponses exampleStopsA) (flatResponses exampleStopsB))
     = Some (Some (621371 / 500000, 20, 10, 30))
   \<and> map_option (displayedMetrics \<circ> snd)
     (editA_editB_thenB_thenA (readyEditor (exampleTrip ''A'' [] ''B'')) exampleStopsA exampleStopsB
        (flatResponses exampleStopsA) (flatResponses exampleStopsB))
     \<noteq> map_option (displayedMetrics \<circ> fst)
     (editA_editB_thenB_thenA (readyEditor (exampleTrip ''A'' [] ''B'')) exampleStopsA exampleStopsB
        (flatResponses exampleStopsA) (flatResponses exampleStopsB))"
  by (simp only: stale_scenario_metrics) simp

theorem last_arrival_wins_witness:
  "map_option (displayedMetrics \<circ> snd)
     (editA_editB_thenB_thenA (readyEditor (exampleTrip ''A'' [] ''B'')) exampleStopsA exampleStopsB
        (flatResponses exampleStopsA) (flatResponses exampleStopsB))
     = Some (Some (621371 / 500000, 20, 10, 30))
   \<and> map_option (map_option stops \<circ> editableTrip \<circ> snd)
     (editA_editB_thenB_thenA (readyEditor (exampleTrip ''A'' [] ''B'')) exampleStopsA exampleStopsB
        (flatResponses exampleStopsA) (flatResponses exampleStopsB))
     = Some (Some exampleStopsB)
   \<and> processResponses (flatResponses exampleStopsA) (0, 0) = Totals (621371 / 500000) 1200"
proof -
  have t: "processResponses (flatResponses exampleStopsA) (0, 0) = Totals (621371 / 500000) 1200"
    by code_simp
  have r: "js_round (1200 / 60) = 20" "sumServiceMinutes exampleStopsA = 10"
    by code_simp+
  from last_arrival_wins [OF stale_scenario_value t] t r show ?thesis
    by (simp add: stale_scenario_value)
qed

section \<open>Verification: the planner passes the oracle's stops through\<close>

lemma plannedStopIds_withId:
  "plannedStopIds (map (\<lambda>(index, trip). withId now index trip) (enumerate n ss)) = oracleStopIds ss"
  by (induction ss arbitrary: n) (simp_all add: plannedStopIds_def oracleStopIds_def withId_def)

text \<open>
  Claim C3, as amended. The planner returns every suggestion of the oracle's reply with
  its stops unchanged and in order, so the work-order ids over the returned trips are
  exactly those of the reply: they cover the input orders exactly once when, and only
  when, the oracle's reply does. The planner itself checks no coverage.
\<close>

theorem planner_returns_oracle_stops:
  "\<exists>res. generateOptimalRoute now orders (Replied (Some \<lparr>suggestions = Some ss, explanation = e\<rparr>))
           = Inr res
     \<and> length (r_suggestions res) = length ss
     \<and> map o_stops (r_suggestions res) = map o_stops ss
     \<and> plannedStopIds (r_suggestions res) = oracleStopIds ss
     \<and> coversExactly orders (plannedStopIds (r_suggestions res))
         = coversExactly orders (oracleStopIds ss)"
proof -
  have "map o_stops (map (\<lambda>(index, trip). withId now index trip) (enumerate n ss)) = map o_stops ss"
    for n
    by (induction ss arbitrary: n) (simp_all add: withId_def)
  then show ?thesis
    by (simp add: generateOptimalRoute_def plannedStopIds_withId)
qed

text \<open>
  Claim C3, as stated, fails: for the two orders \<open>wo-1\<close> and \<open>wo-2\<close>, a reply that fits the
  response schema and routes only \<open>wo-1\<close> is returned as it is, and \<open>wo-2\<close> is in no trip.
\<close>

theorem planner_accepts_partial_coverage:
  "map_sum id (plannedStopIds \<circ> r_suggestions)
      (generateOptimalRoute (\<lambda>index. 1793600000000) exampleOrders partialReply)
     = Inr [''wo-1'']
   \<and> map wo_id exampleOrders = [''wo-1'', ''wo-2'']
   \<and> \<not> coversExactly exampleOrders [''wo-1'']"
  by (simp add: generateOptimalRoute_def partialReply_def plannedStopIds_def withId_def
        exampleOrders_def exampleOrder_def coversExactly_def)

section \<open>Verification: adding stops\<close>

lemma workOrderId_stopForOrder [simp]:
  "workOrderId (stopForOrder wos wots i) = i"
  by (simp add: stopForOrder_def Let_def)

lemma uniqueNewStops_ids:
  "map workOrderId (uniqueNewStops wos wots current ids)
     = filter (\<lambda>i. address (stopForOrder wos wots i) \<noteq> []
                   \<and> i \<notin> set (map workOrderId current)) ids"
  by (induction ids) (simp_all add: uniqueNewStops_def Let_def)

lemma handleStopsChange_stops:
  "editableTrip st = Some trip \<Longrightarrow>
   editableTrip (fst (handleStopsChange mapsLoaded newStops st)) = Some (trip\<lparr>stops := newStops\<rparr>)"
  by (simp add: handleStopsChange_def Let_def recalculateTrip_begin_def split: sum.splits)

text \<open>
  Claim C9, as amended. On an editable trip, adding stops appends, for the requested ids
  in order, the stops whose id is not among the current stops and whose work order has a
  non-empty address (an unknown order counts as having the empty address). If the current
  stops have pairwise distinct ids and the requested ids are pairwise distinct (the modal
  passes the elements of a set), the ids after the edit are pairwise distinct.
\<close>

theorem add_stops_keeps_ids_distinct:
  assumes "editableTrip st = Some trip"
  shows "map_option stops
           (editableTrip (fst (handleAddStops mapsLoaded wos wots ids st)))
         = Some (stops trip @ uniqueNewStops wos wots (stops trip) ids)
     \<and> (\<forall>s\<in>set (uniqueNewStops wos wots (stops trip) ids).
           workOrderId s \<notin> set (map workOrderId (stops trip))
           \<and> address s \<noteq> []
           \<and> workOrderId s \<in> set ids
           \<and> s = stopForOrder wos wots (workOrderId s))
     \<and> (distinct (map workOrderId (stops trip)) \<and> distinct ids \<longrightarrow>
          distinct (map workOrderId
            (stops trip @ uniqueNewStops wos wots (stops trip) ids)))"
proof (intro conjI)
  show "map_option stops
           (editableTrip (fst (handleAddStops mapsLoaded wos wots ids st)))
         = Some (stops trip @ uniqueNewStops wos wots (stops trip) ids)"
    using assms by (simp add: handleAddStops_def Let_def handleStopsChange_stops)
next
  show "\<forall>s\<in>set (uniqueNewStops wos wots (stops trip) ids).
           workOrderId s \<notin> set (map workOrderId (stops trip))
           \<and> address s \<noteq> []
           \<and> workOrderId s \<in> set ids
           \<and> s = stopForOrder wos wots (workOrderId s)"
    by (auto simp: uniqueNewStops_def Let_def)
next
  show "distinct (map workOrderId (stops trip)) \<and> distinct ids \<longrightarrow>
          distinct (map workOrderId
            (stops trip @ uniqueNewStops wos wots (stops trip) ids))"
    by (auto simp: uniqueNewStops_ids)
qed

text \<open>
  Claim C9, as stated for every list of requested ids, fails: the request is compared with
  the current stops only, so an id requested twice is added twice.
\<close>

theorem add_stops_repeated_id_counterexample:
  "map_option (map workOrderId \<circ> stops)
      (editableTrip (fst (handleAddStops True exampleOrders [] [''wo-1'', ''wo-1'']
         (readyEditor (exampleTrip ''A'' [] ''B'')))))
     = Some [''wo-1'', ''wo-1'']
   \<and> distinct (map workOrderId (stops (exampleTrip ''A'' [] ''B'')))
   \<and> \<not> distinct [''wo-1'', ''wo-1'']"
  by code_simp

theorem add_stops_keeps_ids_distinct_witness:
  "map_option (map workOrderId \<circ> stops)
      (editableTrip (fst (handleAddStops True exampleOrders [] [''wo-1'', ''wo-9'', ''wo-2'']
         (readyEditor (exampleTrip ''A'' [stopAt ''wo-2'' ''2 Oak Ave'' 15] ''B'')))))
     = Some [''wo-2'', ''wo-1'']
   \<and> distinct [''wo-2'', ''wo-1'']"
proof -
  have e: "editableTrip (readyEditor (exampleTrip ''A'' [stopAt ''wo-2'' ''2 Oak Ave'' 15] ''B''))
      = Some (exampleTrip ''A'' [stopAt ''wo-2'' ''2 Oak Ave'' 15] ''B'')"
    by (simp add: readyEditor_def)
  have u: "map workOrderId (uniqueNewStops exampleOrders []
      (stops (exampleTrip ''A'' [stopAt ''wo-2'' ''2 Oak Ave'' 15] ''B'')) [''wo-1'', ''wo-9'', ''wo-2''])
      = [''wo-1'']"
    by code_simp
  have s: "map workOrderId (stops (exampleTrip ''A'' [stopAt ''wo-2'' ''2 Oak Ave'' 15] ''B'')) = [''wo-2'']"
    by code_simp
  from add_stops_keeps_ids_distinct [OF e, of True exampleOrders "[]" "[''wo-1'', ''wo-9'', ''wo-2'']"]
  have "map_option stops
      (editableTrip (fst (handleAddStops True exampleOrders [] [''wo-1'', ''wo-9'', ''wo-2'']
         (readyEditor (exampleTrip ''A'' [stopAt ''wo-2'' ''2 Oak Ave'' 15] ''B'')))))
     = Some (stops (exampleTrip ''A'' [stopAt ''wo-2'' ''2 Oak Ave'' 15] ''B'')
             @ uniqueNewStops exampleOrders []
                 (stops (exampleTrip ''A'' [stopAt ''wo-2'' ''2 Oak Ave'' 15] ''B''))
                 [''wo-1'', ''wo-9'', ''wo-2''])"
    by blast
  then have "map_option (map workOrderId \<circ> stops)
      (editableTrip (fst (handleAddStops True exampleOrders [] [''wo-1'', ''wo-9'', ''wo-2'']
         (readyEditor (exampleTrip ''A'' [stopAt ''wo-2'' ''2 Oak Ave'' 15] ''B'')))))
     = Some (map workOrderId (stops (exampleTrip ''A'' [stopAt ''wo-2'' ''2 Oak Ave'' 15] ''B''))
             @ map workOrderId (uniqueNewStops exampleOrders []
                 (stops (exampleTrip ''A'' [stopAt ''wo-2'' ''2 Oak Ave'' 15] ''B''))
                 [''wo-1'', ''wo-9'', ''wo-2'']))"
    by (auto simp: map_option_case split: option.splits)
  then show ?thesis by (simp only: u s) simp
qed

section \<open>Verification: trip numbers\<close>











lemma addTrip_tripNumber:
  "tripNumber (snd (addTrip toLocal nowId nowDate state trip))
     = datePrefix (tripDateOf toLocal nowDate trip) @ ''-''
       @ show_nat (length (tripsOnSameDay (datePrefix (tripDateOf toLocal nowDate trip)) (trips state)) + 1)"
  by (simp add: addTrip_def Let_def tripDateOf_def)



text \<open>
  Claim C10. The date behind the prefix is that of the trip's start time when the trip has
  one, and the current date otherwise; the count is taken over the stored trips that carry
  the prefix of that date. So a trip scheduled for another day is numbered among that
  day's trips.
\<close>

theorem trip_number_date_from_start_time:
  "(startTimeSet trip \<longrightarrow>
      (\<exists>t. startTime trip = Some t
         \<and> tripNumber (snd (addTrip toLocal nowId nowDate state trip))
             = datePrefix (toLocal t) @ ''-''
               @ show_nat (length (tripsOnSameDay (datePrefix (toLocal t)) (trips state)) + 1)))
   \<and> (\<not> startTimeSet trip \<longrightarrow>
        tripNumber (snd (addTrip toLocal nowId nowDate state trip))
          = datePrefix (toLocal nowDate) @ ''-''
            @ show_nat (length (tripsOnSameDay (datePrefix (toLocal nowDate)) (trips state)) + 1))"
  by (auto simp: addTrip_tripNumber startTimeSet_def tripDateOf_def split: option.splits)

theorem trip_number_date_from_start_time_witness:
  "startTimeSet (exampleTripRecord [] [] (Some 1000))
   \<and> tripNumber (snd (addTrip exampleCalendar 1793600000000 5000 exampleState
        (exampleTripRecord [] [] (Some 1000)))) = ''110226-4''
   \<and> \<not> startTimeSet (exampleTripRecord [] [] None)
   \<and> tripNumber (snd (addTrip exampleCalendar 1793600000000 5000 exampleState
        (exampleTripRecord [] [] None))) = ''122426-1''"
proof -
  have a: "startTimeSet (exampleTripRecord [] [] (Some 1000))"
    and b: "\<not> startTimeSet (exampleTripRecord [] [] None)"
    and s: "startTime (exampleTripRecord [] [] (Some 1000)) = Some 1000"
    by (simp_all add: startTimeSet_def exampleTripRecord_def)
  have v: "datePrefix (exampleCalendar 1000) @ ''-''
        @ show_nat (length (tripsOnSameDay (datePrefix (exampleCalendar 1000)) (trips exampleState)) + 1)
      = ''110226-4''"
    "datePrefix (exampleCalendar 5000) @ ''-''
        @ show_nat (length (tripsOnSameDay (datePrefix (exampleCalendar 5000)) (trips exampleState)) + 1)
      = ''122426-1''"
    by code_simp+
  from trip_number_date_from_start_time [of "exampleTripRecord [] [] (Some 1000)"
      exampleCalendar 1793600000000 5000 exampleState] a
  obtain t where t: "startTime (exampleTripRecord [] [] (Some 1000)) = Some t"
    and eq: "tripNumber (snd (addTrip exampleCalendar 1793600000000 5000 exampleState
        (exampleTripRecord [] [] (Some 1000))))
      = datePrefix (exampleCalendar t) @ ''-''
        @ show_nat (length (tripsOnSameDay (datePrefix (exampleCalendar t)) (trips exampleState)) + 1)"
    by blast
  from t s have "t = 1000" by simp
  with eq have 1: "tripNumber (snd (addTrip exampleCalendar 1793600000000 5000 exampleState
        (exampleTripRecord [] [] (Some 1000)))) = ''110226-4''"
    by (simp only: v)
  from trip_number_date_from_start_time [of "exampleTripRecord [] [] None"
      exampleCalendar 1793600000000 5000 exampleState] b
  have "tripNumber (snd (addTrip exampleCalendar 1793600000000 5000 exampleState
        (exampleTripRecord [] [] None)))
      = datePrefix (exampleCalendar 5000) @ ''-''
        @ show_nat (length (tripsOnSameDay (datePrefix (exampleCalendar 5000)) (trips exampleState)) + 1)"
    by blast
  then have 2: "tripNumber (snd (addTrip exampleCalendar 1793600000000 5000 exampleState
        (exampleTripRecord [] [] None))) = ''122426-1''"
    by (simp only: v)
  from a b 1 2 show ?thesis by simp
qed

section \<open>Verification: stopping a trip\<close>

lemma timer_ticks_elapsed:
  "elapsedSeconds ((timer_tick ^^ n) (timer_start (useTimer initial))) = initial + of_nat n
   \<and> intervalRef ((timer_tick ^^ n) (timer_start (useTimer initial)))"
  by (induction n) (simp_all add: timer_tick_def timer_start_def useTimer_def)

lemma timer_idle_elapsed:
  "elapsedSeconds ((timer_tick ^^ n) (useTimer initial)) = initial
   \<and> \<not> intervalRef ((timer_tick ^^ n) (useTimer initial))"
  by (induction n) (simp_all add: timer_tick_def useTimer_def)

lemma handleStopTrip_without_dispatch:
  "activeTripOf state = Some activeTrip \<Longrightarrow>
   handleStopTrip None now tm state = (Some TypeError, state, timer_pause tm)"
  by (simp add: handleStopTrip_def timer_stop_def)

lemma handleStopTrip_with_dispatch:
  "activeTripOf state = Some activeTrip \<Longrightarrow>
   handleStopTrip (Some (\<lambda>a st. appReducer st a)) now tm state =
     (None,
      state\<lparr>trips := map (\<lambda>t. if trip_id t = trip_id activeTrip
                                 then stoppedTrip now (elapsedSeconds tm) activeTrip else t)
                        (trips state)\<rparr>,
      timer_pause tm)"
  by (simp add: handleStopTrip_def timer_stop_def stoppedTrip_def)

lemma started_example:
  "activeTripOf (handleStartTrip 1000000 ''7'' plannedState)
     = Some ((exampleTripRecord ''7'' ''110226-1'' None)
               \<lparr>trip_status := TripActive, startTime := Some 1000000\<rparr>)"
  "trips (handleStartTrip 1000000 ''7'' plannedState)
     = [(exampleTripRecord ''7'' ''110226-1'' None)
               \<lparr>trip_status := TripActive, startTime := Some 1000000\<rparr>]"
  by code_simp+

text \<open>
  Claim C7. The claim asks that stopping an Active trip sets its status to Completed, its
  end time to the instant of stopping and its total time to the seconds since the start.
  The handler builds that update and hands it to \<^verbatim>\<open>dispatch\<close>, which the context does
  not provide: for a trip started at the instant 1000000 and stopped at 1060000, after 60
  ticks of its timer, the call throws, and the trip is still Active, without an end time
  and with its stored total of 7200 seconds.
\<close>

theorem stop_trip_throws_trip_stays_active:
  "fst (handleStopTrip providedDispatch 1060000
          ((timer_tick ^^ 60) (timer_start (useTimer 7200)))
          (handleStartTrip 1000000 ''7'' plannedState)) = Some TypeError
   \<and> map trip_status (trips (fst (snd (handleStopTrip providedDispatch 1060000
          ((timer_tick ^^ 60) (timer_start (useTimer 7200)))
          (handleStartTrip 1000000 ''7'' plannedState))))) = [TripActive]
   \<and> map startTime (trips (fst (snd (handleStopTrip providedDispatch 1060000
          ((timer_tick ^^ 60) (timer_start (useTimer 7200)))
          (handleStartTrip 1000000 ''7'' plannedState))))) = [Some 1000000]
   \<and> map endTime (trips (fst (snd (handleStopTrip providedDispatch 1060000
          ((timer_tick ^^ 60) (timer_start (useTimer 7200)))
          (handleStartTrip 1000000 ''7'' plannedState))))) = [None]
   \<and> map totalTimeSeconds (trips (fst (snd (handleStopTrip providedDispatch 1060000
          ((timer_tick ^^ 60) (timer_start (useTimer 7200)))
          (handleStartTrip 1000000 ''7'' plannedState))))) = [7200]"
  by (simp only: providedDispatch_def handleStopTrip_without_dispatch [OF started_example(1)]
        fst_conv snd_conv started_example(2))
     (simp add: exampleTripRecord_def)

section \<open>Verification: the rates\<close>

lemma js_div_zero_by_sixty: "js_div rnd (Fin 0) (Fin 60) = Fin 0"
  by simp

text \<open>
  Claim C8. Whatever the payout and however quotients are rounded, the hourly rate for 0
  minutes and the per-mile rate for 0 miles are the number 0 (so is the office screen's
  hourly rate for 0 hours, and the per-mile rate for any miles not above 0). With a
  positive denominator, hours (the minutes divided by 60) or miles, the rate is the
  payout divided by it; and whenever the denominator is not positive the rate is 0, so no
  division by zero is ever carried out.
\<close>

theorem rates_are_zero_guarded:
  "perHourRate rnd payout (Fin 0) = Fin 0
   \<and> perMileRate rnd payout (Fin 0) = Fin 0
   \<and> kpis_perHourRate rnd payout (Fin 0) = Fin 0
   \<and> (m \<le> 0 \<longrightarrow> perMileRate rnd payout (Fin m) = Fin 0)
   \<and> (js_gt (js_div rnd minutes (Fin 60)) (Fin 0) \<longrightarrow>
        perHourRate rnd payout minutes = js_div rnd payout (js_div rnd minutes (Fin 60)))
   \<and> (js_gt miles (Fin 0) \<longrightarrow> perMileRate rnd payout miles = js_div rnd payout miles)
   \<and> (js_gt hours (Fin 0) \<longrightarrow> kpis_perHourRate rnd payout hours = js_div rnd payout hours)
   \<and> (\<not> js_gt (js_div rnd minutes (Fin 60)) (Fin 0) \<longrightarrow> perHourRate rnd payout minutes = Fin 0)
   \<and> (\<not> js_gt miles (Fin 0) \<longrightarrow> perMileRate rnd payout miles = Fin 0)
   \<and> (\<not> js_gt hours (Fin 0) \<longrightarrow> kpis_perHourRate rnd payout hours = Fin 0)"
proof -
  have zero: "perHourRate rnd payout (Fin 0) = Fin 0" "perMileRate rnd payout (Fin 0) = Fin 0"
    "kpis_perHourRate rnd payout (Fin 0) = Fin 0"
    by (simp_all add: perHourRate_def perMileRate_def kpis_perHourRate_def Let_def)
  have below: "m \<le> 0 \<longrightarrow> perMileRate rnd payout (Fin m) = Fin 0"
    by (simp add: perMileRate_def)
  have guarded:
    "js_gt (js_div rnd minutes (Fin 60)) (Fin 0) \<longrightarrow>
       perHourRate rnd payout minutes = js_div rnd payout (js_div rnd minutes (Fin 60))"
    "js_gt miles (Fin 0) \<longrightarrow> perMileRate rnd payout miles = js_div rnd payout miles"
    "js_gt hours (Fin 0) \<longrightarrow> kpis_perHourRate rnd payout hours = js_div rnd payout hours"
    "\<not> js_gt (js_div rnd minutes (Fin 60)) (Fin 0) \<longrightarrow> perHourRate rnd payout minutes = Fin 0"
    "\<not> js_gt miles (Fin 0) \<longrightarrow> perMileRate rnd payout miles = Fin 0"
    "\<not> js_gt hours (Fin 0) \<longrightarrow> kpis_perHourRate rnd payout hours = Fin 0"
    by (simp_all add: perHourRate_def perMileRate_def kpis_perHourRate_def Let_def)
  from zero below guarded show ?thesis by blast
qed

lemma leastDouble_positive: "0 < leastDouble"
  by (simp add: leastDouble_def)

lemma rangeRounding_examples:
  "js_div rangeRounding (Fin 120) (Fin 60) = Fin 2"
  "js_div rangeRounding (Fin 100) (Fin 2) = Fin 50"
  "js_div rangeRounding (Fin 100) (Fin 40) = Fin (5 / 2)"
  "js_div rangeRounding (Fin 100) (Fin leastDouble) = PosInf"
  "js_div rangeRounding (Fin leastDouble) (Fin 60) = Fin 0"
  by (simp_all add: rangeRounding_def leastDouble_def)

theorem rates_are_zero_guarded_witness:
  "perHourRate rangeRounding (Fin 100) (Fin 0) = Fin 0
   \<and> perMileRate rangeRounding (Fin 100) (Fin 0) = Fin 0
   \<and> js_gt (js_div rangeRounding (Fin 120) (Fin 60)) (Fin 0)
   \<and> perHourRate rangeRounding (Fin 100) (Fin 120) = Fin 50
   \<and> js_gt (Fin 40) (Fin 0)
   \<and> perMileRate rangeRounding (Fin 100) (Fin 40) = Fin (5 / 2)
   \<and> js_gt (Fin leastDouble) (Fin 0)
   \<and> perMileRate rangeRounding (Fin 100) (Fin leastDouble) = PosInf
   \<and> \<not> js_gt (js_div rangeRounding (Fin leastDouble) (Fin 60)) (Fin 0)
   \<and> perHourRate rangeRounding (Fin 100) (Fin leastDouble) = Fin 0"
proof -
  have g: "js_gt (js_div rangeRounding (Fin 120) (Fin 60)) (Fin 0)"
    "js_gt (Fin 40) (Fin 0)" "js_gt (Fin leastDouble) (Fin 0)"
    "\<not> js_gt (js_div rangeRounding (Fin leastDouble) (Fin 60)) (Fin 0)"
    by (simp_all del: js_div.simps add: rangeRounding_examples leastDouble_positive)
  from rates_are_zero_guarded [of rangeRounding "Fin 100" 0 "Fin 120" "Fin 40" "Fin 1"] g
  have a: "perHourRate rangeRounding (Fin 100) (Fin 0) = Fin 0"
    "perMileRate rangeRounding (Fin 100) (Fin 0) = Fin 0"
    "perHourRate rangeRounding (Fin 100) (Fin 120) = Fin 50"
    "perMileRate rangeRounding (Fin 100) (Fin 40) = Fin (5 / 2)"
    by (simp_all del: js_div.simps add: rangeRounding_examples)
  from rates_are_zero_guarded [of rangeRounding "Fin 100" 0 "Fin leastDouble"
      "Fin leastDouble" "Fin 1"] g
  have b: "perMileRate rangeRounding (Fin 100) (Fin leastDouble) = PosInf"
    "perHourRate rangeRounding (Fin 100) (Fin leastDouble) = Fin 0"
    by (simp_all del: js_div.simps add: rangeRounding_examples)
  from g a b show ?thesis by blast
qed

end
